theory Spec2Isabelle
  imports Main
begin

section \<open>Python values and their renderings\<close>

text \<open>
  The scripts handle three kinds of data: text (Python \<open>str\<close>), decoded JSON bodies and
  the process environment. A Python \<open>str\<close> is modelled as a HOL \<open>string\<close> whose characters
  stand for the code points below 256; a decoded JSON body is a value of \<open>json\<close>, an object
  being the list of its members in insertion order. Numbers with a fraction or an exponent
  decode to Python floats and are not part of the model.
\<close>

datatype json =
    JNull
  | JBool bool
  | JInt int
  | JStr string
  | JList "json list"
  | JDict "(string \<times> json) list"

text \<open>Truth value testing, as \<open>if x\<close>, \<open>x or y\<close> and \<open>not x\<close> apply it.\<close>

fun truthy :: "json \<Rightarrow> bool" where
  "truthy JNull = False"
| "truthy (JBool b) = b"
| "truthy (JInt i) = (i \<noteq> 0)"
| "truthy (JStr s) = (s \<noteq> [])"
| "truthy (JList xs) = (xs \<noteq> [])"
| "truthy (JDict kvs) = (kvs \<noteq> [])"

text \<open>\<open>x or y\<close> yields \<open>x\<close> when it is truthy and \<open>y\<close> otherwise.\<close>

definition py_or :: "json \<Rightarrow> json \<Rightarrow> json" where
  "py_or x y = (if truthy x then x else y)"

text \<open>\<open>d.get(key, default)\<close> on a dict; \<open>d.get(key)\<close> is \<open>dict_get d key JNull\<close>.\<close>

definition dict_get :: "(string \<times> json) list \<Rightarrow> string \<Rightarrow> json \<Rightarrow> json" where
  "dict_get d k dflt = (case map_of d k of Some v \<Rightarrow> v | None \<Rightarrow> dflt)"

text \<open>Decimal rendering of integers, as \<open>str\<close> and \<open>json.dumps\<close> print them.\<close>

fun nat_str :: "nat \<Rightarrow> string" where
  "nat_str n =
     (if n < 10 then [''0123456789'' ! n]
      else nat_str (n div 10) @ [''0123456789'' ! (n mod 10)])"

declare nat_str.simps [simp del]

definition int_str :: "int \<Rightarrow> string" where
  "int_str i = (if i < 0 then CHR ''-'' # nat_str (nat (- i)) else nat_str (nat i))"

text \<open>\<open>sep.join(parts)\<close>.\<close>

fun join :: "string \<Rightarrow> string list \<Rightarrow> string" where
  "join sep [] = []"
| "join sep [x] = x"
| "join sep (x # y # ys) = x @ sep @ join sep (y # ys)"

text \<open>Two lowercase hexadecimal digits of a character code.\<close>

definition hex2 :: "char \<Rightarrow> string" where
  "hex2 c =
     [''0123456789abcdef'' ! (of_char c div 16), ''0123456789abcdef'' ! (of_char c mod 16)]"

text \<open>
  \<open>str.isprintable\<close> on one character below 256: the control characters, the
  no-break space and the soft hyphen are not printable.
\<close>

definition isprintable :: "char \<Rightarrow> bool" where
  "isprintable c =
     (let n = (of_char c :: nat)
      in 32 \<le> n \<and> n \<noteq> 127 \<and> \<not> (128 \<le> n \<and> n \<le> 160) \<and> n \<noteq> 173)"

text \<open>
  \<open>repr\<close> of a string: single quotes unless the text has a single quote and no double
  quote; the quote and the backslash are escaped, tab, newline and carriage return have
  their letters, every other unprintable character is written \<open>\xNN\<close>.
\<close>

definition repr_char :: "char \<Rightarrow> char \<Rightarrow> string" where
  "repr_char quote c =
     (if c = quote \<or> c = CHR 0x5C then [CHR 0x5C, c]
      else if c = CHR 0x09 then [CHR 0x5C, CHR ''t'']
      else if c = CHR 0x0A then [CHR 0x5C, CHR ''n'']
      else if c = CHR 0x0D then [CHR 0x5C, CHR ''r'']
      else if isprintable c then [c]
      else [CHR 0x5C, CHR ''x''] @ hex2 c)"

definition repr_str :: "string \<Rightarrow> string" where
  "repr_str s =
     (let quote = (if CHR 0x27 \<in> set s \<and> CHR 0x22 \<notin> set s then CHR 0x22 else CHR 0x27)
      in quote # concat (map (repr_char quote) s) @ [quote])"

primrec py_repr :: "json \<Rightarrow> string" where
  "py_repr JNull = ''None''"
| "py_repr (JBool b) = (if b then ''True'' else ''False'')"
| "py_repr (JInt i) = int_str i"
| "py_repr (JStr s) = repr_str s"
| "py_repr (JList xs) = ''['' @ join '', '' (map py_repr xs) @ '']''"
| "py_repr (JDict kvs) =
     ''{'' @ join '', ''
        (map (\<lambda>kv. repr_str (fst kv) @ '': '' @ snd kv) (map (map_prod id py_repr) kvs))
      @ ''}''"

text \<open>
  \<open>str(x)\<close>, which is what an f-string field \<open>{x}\<close> inserts: a string is inserted as
  it is, every other value as its \<open>repr\<close>.
\<close>

definition py_str :: "json \<Rightarrow> string" where
  "py_str x = (case x of JStr s \<Rightarrow> s | _ \<Rightarrow> py_repr x)"

text \<open>
  \<open>json.dumps(data, indent=2, ensure_ascii=False)\<close>: inside a string the double quote,
  the backslash and the control characters are escaped and every other character is
  written as it is; a non-empty array or object puts each member on a line of its own,
  indented by two spaces per nesting level.
\<close>

definition json_escape_char :: "char \<Rightarrow> string" where
  "json_escape_char c =
     (if c = CHR 0x22 then [CHR 0x5C, CHR 0x22]
      else if c = CHR 0x5C then [CHR 0x5C, CHR 0x5C]
      else if c = CHR 0x0A then [CHR 0x5C, CHR ''n'']
      else if c = CHR 0x0D then [CHR 0x5C, CHR ''r'']
      else if c = CHR 0x09 then [CHR 0x5C, CHR ''t'']
      else if c = CHR 0x08 then [CHR 0x5C, CHR ''b'']
      else if c = CHR 0x0C then [CHR 0x5C, CHR ''f'']
      else if (of_char c :: nat) < 32 then [CHR 0x5C, CHR ''u'', CHR ''0'', CHR ''0''] @ hex2 c
      else [c])"

definition json_string :: "string \<Rightarrow> string" where
  "json_string s = CHR 0x22 # concat (map json_escape_char s) @ [CHR 0x22]"

definition newline_indent :: "nat \<Rightarrow> string" where
  "newline_indent level = CHR 0x0A # replicate (2 * level) CHR '' ''"

primrec dumps_at :: "json \<Rightarrow> nat \<Rightarrow> string" where
  "dumps_at JNull level = ''null''"
| "dumps_at (JBool b) level = (if b then ''true'' else ''false'')"
| "dumps_at (JInt i) level = int_str i"
| "dumps_at (JStr s) level = json_string s"
| "dumps_at (JList xs) level =
     (if xs = [] then ''[]''
      else ''['' @ newline_indent (Suc level)
           @ join ('','' @ newline_indent (Suc level))
               (map (\<lambda>item. item (Suc level)) (map dumps_at xs))
           @ newline_indent level @ '']'')"
| "dumps_at (JDict kvs) level =
     (if kvs = [] then ''{}''
      else ''{'' @ newline_indent (Suc level)
           @ join ('','' @ newline_indent (Suc level))
               (map (\<lambda>kv. json_string (fst kv) @ '': '' @ snd kv (Suc level))
                  (map (map_prod id dumps_at) kvs))
           @ newline_indent level @ ''}'')"

definition json_dumps :: "json \<Rightarrow> string" where
  "json_dumps data = dumps_at data 0"

section \<open>The process: output streams, requests, exceptions\<close>

text \<open>
  \<open>httpx.Client(base_url=BASE_URL, headers={"X-Api-Key": API_KEY}, timeout=30.0,
  verify=False)\<close>.
\<close>

record http_client =
  base_url :: string
  headers :: "(string \<times> string) list"
  timeout :: nat
  verify :: bool

text \<open>
  One call of \<open>c.get(url, params=...)\<close> or \<open>c.post(url, json=...)\<close>; a keyword that the call
  does not pass is \<open>None\<close>.
\<close>

record request =
  via :: http_client
  verb :: string
  target :: string
  params :: "(string \<times> json) list option"
  json_payload :: "json option"

text \<open>
  What the scripts read of an \<open>httpx.Response\<close>: the status code, the result of
  \<open>resp.json()\<close> (\<open>None\<close> when decoding raises) and \<open>resp.text\<close>.
\<close>

record response =
  status_code :: int
  json_body :: "json option"
  text_body :: string

text \<open>The remote gateway answers every request.\<close>

type_synonym server = "request \<Rightarrow> response"

text \<open>
  The exceptions that leave a script. \<open>SystemExit n\<close> ends the process with exit code
  \<open>n\<close>; the others are uncaught errors of the interpreter.
\<close>

datatype exn =
    SystemExit int
  | JSONDecodeError
  | AttributeError
  | TypeError
  | ValueError

text \<open>
  The observable state of a run: each element of \<open>stdout\<close> and \<open>stderr\<close> is the argument of
  one \<open>print\<close> call (written followed by a newline), \<open>requests\<close> are the HTTP requests sent
  so far, in order.
\<close>

record world =
  stdout :: "string list"
  stderr :: "string list"
  requests :: "request list"

type_synonym 'a io = "world \<Rightarrow> (exn + 'a) \<times> world"

definition print :: "string \<Rightarrow> unit io" where
  "print s w = (Inr (), w\<lparr>stdout := stdout w @ [s]\<rparr>)"

definition print_stderr :: "string \<Rightarrow> unit io" where
  "print_stderr s w = (Inr (), w\<lparr>stderr := stderr w @ [s]\<rparr>)"

definition sys_exit :: "int \<Rightarrow> 'a io" where
  "sys_exit n w = (Inl (SystemExit n), w)"

text \<open>Sequencing: the second action runs in the state the first one left, unless it raised.\<close>

definition seq :: "'a io \<Rightarrow> ('a \<Rightarrow> 'b io) \<Rightarrow> 'b io" where
  "seq m f w = (case m w of (Inl e, w') \<Rightarrow> (Inl e, w') | (Inr x, w') \<Rightarrow> f x w')"

section \<open>The shared client module\<close>

text \<open>\<open>die(msg)\<close>: \<open>print(f"Error: {msg}", file=sys.stderr); sys.exit(1)\<close>.\<close>

definition die :: "string \<Rightarrow> 'a io" where
  "die msg = seq (print_stderr (''Error: '' @ msg)) (\<lambda>_. sys_exit 1)"

text \<open>
  \<open>check(resp)\<close>: on a status of 400 or more the detail is the decoded body, or the text
  when decoding raises, and the process dies; otherwise the decoded body is returned, and
  a body that does not decode raises the decoder's error.
\<close>

definition check :: "response \<Rightarrow> json io" where
  "check resp =
     (if 400 \<le> status_code resp then
        (let detail = (case json_body resp of Some j \<Rightarrow> j | None \<Rightarrow> JStr (text_body resp))
         in die (''HTTP '' @ int_str (status_code resp) @ '': '' @ py_str detail))
      else
        (\<lambda>w. case json_body resp of Some j \<Rightarrow> (Inr j, w) | None \<Rightarrow> (Inl JSONDecodeError, w)))"

text \<open>\<open>pp(data)\<close>: \<open>print(json.dumps(data, indent=2, ensure_ascii=False, default=str))\<close>.\<close>

definition pp :: "json \<Rightarrow> unit io" where
  "pp data = print (json_dumps data)"

subsection \<open>The environment file\<close>

text \<open>\<open>os.environ\<close>, as on a POSIX system: the keys are compared as they are written.\<close>

type_synonym environ = "string \<rightharpoonup> string"

text \<open>
  The string methods the loader calls. \<open>str.splitlines\<close> ends a line at each of the line
  boundaries (a carriage return followed by a line feed is one boundary) and yields no
  empty last line; \<open>str.strip\<close> removes the white space at both ends.
\<close>

definition is_linebreak :: "char \<Rightarrow> bool" where
  "is_linebreak c =
     (c \<in> {CHR 0x0A, CHR 0x0B, CHR 0x0C, CHR 0x0D, CHR 0x1C, CHR 0x1D, CHR 0x1E, CHR 0x85})"

fun splitlines_from :: "string \<Rightarrow> string \<Rightarrow> string list" where
  "splitlines_from cur [] = (if cur = [] then [] else [cur])"
| "splitlines_from cur (c # cs) =
     (if is_linebreak c then
        cur # splitlines_from []
                (if c = CHR 0x0D \<and> take 1 cs = [CHR 0x0A] then drop 1 cs else cs)
      else splitlines_from (cur @ [c]) cs)"

definition splitlines :: "string \<Rightarrow> string list" where
  "splitlines s = splitlines_from [] s"

definition isspace :: "char \<Rightarrow> bool" where
  "isspace c =
     (let n = (of_char c :: nat)
      in (9 \<le> n \<and> n \<le> 13) \<or> (28 \<le> n \<and> n \<le> 32) \<or> n = 133 \<or> n = 160)"

definition strip :: "string \<Rightarrow> string" where
  "strip s = rev (dropWhile isspace (rev (dropWhile isspace s)))"

definition startswith :: "string \<Rightarrow> string \<Rightarrow> bool" where
  "startswith s p = (take (length p) s = p)"

text \<open>
  \<open>s.partition("=")\<close>: the text before the first \<open>=\<close> and the text after it (the middle
  component, the separator, is dropped by the caller).
\<close>

definition partition_eq :: "string \<Rightarrow> string \<times> string" where
  "partition_eq s =
     (takeWhile (\<lambda>c. c \<noteq> CHR ''='') s, drop 1 (dropWhile (\<lambda>c. c \<noteq> CHR ''='') s))"

text \<open>
  \<open>os.environ[key] = value\<close>: the assignment raises \<open>ValueError\<close> (embedded null byte)
  when the key or the value has a NUL character, and stores the value otherwise.
\<close>

definition environ_set :: "environ \<Rightarrow> string \<Rightarrow> string \<Rightarrow> exn + environ" where
  "environ_set env key value =
     (if CHR 0x00 \<in> set key \<or> CHR 0x00 \<in> set value then Inl ValueError
      else Inr (env(key \<mapsto> value)))"

text \<open>One round of the loop of \<open>_load_env\<close>, on the environment as it is at that line.\<close>

definition load_env_line :: "environ \<Rightarrow> string \<Rightarrow> exn + environ" where
  "load_env_line env raw =
     (let line = strip raw in
      if line = [] \<or> startswith line ''#'' \<or> CHR ''='' \<notin> set line then Inr env
      else
        (let (key, value) = partition_eq line;
             key = strip key;
             value = strip value
         in if key \<noteq> [] \<and> env key = None then environ_set env key value else Inr env))"

text \<open>The loop over the lines, left at the first round that raises.\<close>

fun load_env_lines :: "environ \<Rightarrow> string list \<Rightarrow> exn + environ" where
  "load_env_lines env [] = Inr env"
| "load_env_lines env (raw # raws) =
     (case load_env_line env raw of
        Inl e \<Rightarrow> Inl e
      | Inr env' \<Rightarrow> load_env_lines env' raws)"

text \<open>
  \<open>_load_env()\<close>. The first argument is the text of the file at \<open>_ENV_PATH\<close>, \<open>None\<close> when
  the file does not exist; the result is \<open>os.environ\<close> after the call, or the exception
  that the call raises.
\<close>

definition load_env :: "string option \<Rightarrow> environ \<Rightarrow> exn + environ" where
  "load_env file env =
     (case file of None \<Rightarrow> Inr env | Some content \<Rightarrow> load_env_lines env (splitlines content))"

text \<open>
  The reading of the file that the specification gives: a line that is not blank, is no
  comment and has an \<open>=\<close> contributes its trimmed key and value when the key is not empty.
\<close>

definition env_entry :: "string \<Rightarrow> (string \<times> string) option" where
  "env_entry raw =
     (let line = strip raw in
      if line = [] \<or> startswith line ''#'' \<or> CHR ''='' \<notin> set line then None
      else
        (let key = strip (fst (partition_eq line));
             value = strip (snd (partition_eq line))
         in if key = [] then None else Some (key, value)))"

definition env_entries :: "string \<Rightarrow> (string \<times> string) list" where
  "env_entries content = List.map_filter env_entry (splitlines content)"

subsection \<open>Module initialisation\<close>

text \<open>The module globals \<open>BASE_URL\<close> and \<open>API_KEY\<close>.\<close>

record config =
  BASE_URL :: string
  API_KEY :: string

text \<open>\<open>os.environ.get(key, default)\<close>.\<close>

definition environ_get :: "environ \<Rightarrow> string \<Rightarrow> string \<Rightarrow> string" where
  "environ_get env k dflt = (case env k of Some v \<Rightarrow> v | None \<Rightarrow> dflt)"

text \<open>
  The body of the module \<open>waha_client\<close>, which runs when a script imports it: the file is
  loaded into the environment (an exception of the loader leaves the module and the
  script), the two globals are read, and an empty key ends the process.
\<close>

definition waha_client :: "string option \<Rightarrow> environ \<Rightarrow> config io" where
  "waha_client file env0 =
     (case load_env file env0 of
        Inl e \<Rightarrow> (\<lambda>w. (Inl e, w))
      | Inr env \<Rightarrow>
          (let base = environ_get env ''WAHA_BASE_URL'' ''https://whatsapp.wyvern-vector.ts.net'';
               key = environ_get env ''WAHA_API_KEY'' ''''
           in if key = [] then
                seq (print_stderr ''Error: WAHA_API_KEY not set. Check ~/documents/waha/.env'')
                  (\<lambda>_. sys_exit 1)
              else (\<lambda>w. (Inr \<lparr>BASE_URL = base, API_KEY = key\<rparr>, w))))"

text \<open>
  A script is its import of \<open>waha_client\<close> followed by its \<open>main\<close>, which gets the globals.
\<close>

definition script :: "(config \<Rightarrow> unit io) \<Rightarrow> string option \<Rightarrow> environ \<Rightarrow> unit io" where
  "script main file env0 = seq (waha_client file env0) main"

text \<open>\<open>client()\<close>.\<close>

definition client :: "config \<Rightarrow> http_client" where
  "client cfg =
     \<lparr>base_url = BASE_URL cfg, headers = [(''X-Api-Key'', API_KEY cfg)],
      timeout = 30, verify = False\<rparr>"

text \<open>
  \<open>c.get(target, params=...)\<close> and \<open>c.post(target, json=...)\<close>: the request is sent and the
  gateway's response returned.
\<close>

definition send :: "server \<Rightarrow> request \<Rightarrow> response io" where
  "send srv req w = (Inr (srv req), w\<lparr>requests := requests w @ [req]\<rparr>)"

definition http_get ::
  "server \<Rightarrow> http_client \<Rightarrow> string \<Rightarrow> (string \<times> json) list option \<Rightarrow> response io" where
  "http_get srv c t ps =
     send srv \<lparr>via = c, verb = ''GET'', target = t, params = ps, json_payload = None\<rparr>"

definition http_post ::
  "server \<Rightarrow> http_client \<Rightarrow> string \<Rightarrow> json option \<Rightarrow> response io" where
  "http_post srv c t body =
     send srv \<lparr>via = c, verb = ''POST'', target = t, params = None, json_payload = body\<rparr>"

section \<open>Command lines\<close>

text \<open>
  The grammar a script declares: one entry per \<open>add_argument\<close> call, with the names or
  flags, the \<open>default\<close>, whether \<open>type=int\<close>, \<open>action="store_true"\<close> or \<open>nargs="+"\<close> was
  given and the \<open>choices\<close>; and one list of such entries per subcommand.
\<close>

record argument =
  flags :: "string list"
  dflt :: json
  is_int :: bool
  store_true :: bool
  nargs_plus :: bool
  choices :: "string list option"

record parser =
  arguments :: "argument list"
  subparsers :: "(string \<times> argument list) list"

text \<open>A positional argument, and an option that stores a string with the given default.\<close>

definition positional :: "string \<Rightarrow> argument" where
  "positional n =
     \<lparr>flags = [n], dflt = JNull, is_int = False, store_true = False, nargs_plus = False,
      choices = None\<rparr>"

definition optional :: "string list \<Rightarrow> json \<Rightarrow> argument" where
  "optional fs d =
     \<lparr>flags = fs, dflt = d, is_int = False, store_true = False, nargs_plus = False,
      choices = None\<rparr>"

text \<open>
  The argument that a flag on the command line selects, and the value that \<open>parse_args\<close>
  stores for it when the command line does not supply the flag.
\<close>

definition find_flag :: "parser \<Rightarrow> string \<Rightarrow> argument option" where
  "find_flag p f = find (\<lambda>a. f \<in> set (flags a)) (arguments p)"

definition flag_default :: "parser \<Rightarrow> string \<Rightarrow> json option" where
  "flag_default p f = map_option dflt (find_flag p f)"

definition groups_parser :: parser where
  "groups_parser =
     \<lparr>arguments = [optional [''-s'', ''--session''] (JStr ''default'')],
      subparsers =
        [(''list'', []),
         (''info'', [positional ''group_id'']),
         (''participants'', [positional ''group_id'']),
         (''create'', [positional ''name'', (positional ''participants'')\<lparr>nargs_plus := True\<rparr>])]\<rparr>"

definition contacts_parser :: parser where
  "contacts_parser =
     \<lparr>arguments = [optional [''-s'', ''--session''] (JStr ''default'')],
      subparsers =
        [(''list'', []),
         (''info'', [positional ''contact_id'']),
         (''check'', [positional ''phone'']),
         (''block'', [positional ''contact_id'']),
         (''unblock'', [positional ''contact_id''])]\<rparr>"

definition list_chats_parser :: parser where
  "list_chats_parser =
     \<lparr>arguments =
        [optional [''-s'', ''--session''] (JStr ''default''),
         (optional [''-l'', ''--limit''] (JInt 20))\<lparr>is_int := True\<rparr>,
         (optional [''--offset''] (JInt 0))\<lparr>is_int := True\<rparr>,
         (optional [''--download-media''] (JBool False))\<lparr>store_true := True\<rparr>],
      subparsers =
        [(''chats'', []), (''overview'', []), (''messages'', [positional ''chat_id''])]\<rparr>"

definition send_message_parser :: parser where
  "send_message_parser =
     \<lparr>arguments =
        [positional ''chat_id'',
         positional ''text'',
         optional [''-s'', ''--session''] (JStr ''default''),
         optional [''-r'', ''--reply-to''] JNull],
      subparsers = []\<rparr>"

definition send_media_parser :: parser where
  "send_media_parser =
     \<lparr>arguments =
        [(positional ''media_type'')\<lparr>choices := Some [''image'', ''file'', ''video'', ''voice'']\<rparr>,
         positional ''chat_id'',
         positional ''url'',
         optional [''-s'', ''--session''] (JStr ''default''),
         optional [''-c'', ''--caption''] JNull,
         optional [''-r'', ''--reply-to''] JNull,
         optional [''-f'', ''--filename''] JNull,
         optional [''-m'', ''--mimetype''] JNull],
      subparsers = []\<rparr>"

definition session_parser :: parser where
  "session_parser =
     \<lparr>arguments = [],
      subparsers =
        [(''list'', []),
         (''info'', [positional ''name'']),
         (''start'', [positional ''name'']),
         (''stop'', [positional ''name'']),
         (''restart'', [positional ''name'']),
         (''logout'', [positional ''name''])]\<rparr>"

text \<open>
  The \<open>main\<close> functions below start from the namespace that \<open>parse_args\<close> returns for a
  command line the grammar accepts: a record of the values, the subcommand being a tagged
  value that carries its positional arguments.
\<close>

record session_arg =
  session :: string

record 'c command_args = session_arg +
  command :: 'c

section \<open>Loops and item access\<close>

text \<open>\<open>for x in xs: body\<close>, left at the first round that raises.\<close>

fun for_each :: "('a \<Rightarrow> unit io) \<Rightarrow> 'a list \<Rightarrow> unit io" where
  "for_each body [] w = (Inr (), w)"
| "for_each body (x # xs) w =
     (case body x w of (Inl e, w') \<Rightarrow> (Inl e, w') | (Inr u, w') \<Rightarrow> for_each body xs w')"

text \<open>
  The attribute \<open>x.get\<close>: of the decoded values only a dict has it, on every other value
  the lookup raises \<open>AttributeError\<close>.
\<close>

definition get_of :: "json \<Rightarrow> (string \<times> json) list io" where
  "get_of x w = (case x of JDict d \<Rightarrow> (Inr d, w) | _ \<Rightarrow> (Inl AttributeError, w))"

text \<open>The items of a list up to the first one that is no dict, and whether all are dicts.\<close>

fun is_dict :: "json \<Rightarrow> bool" where
  "is_dict (JDict d) = True"
| "is_dict x = False"

fun leading_dicts :: "json list \<Rightarrow> (string \<times> json) list list" where
  "leading_dicts (JDict d # xs) = d # leading_dicts xs"
| "leading_dicts xs = []"

text \<open>\<open>d[key] = value\<close>: an existing key keeps its place, a new one is added at the end.\<close>

fun dict_set :: "(string \<times> json) list \<Rightarrow> string \<Rightarrow> json \<Rightarrow> (string \<times> json) list" where
  "dict_set [] k v = [(k, v)]"
| "dict_set ((k', v') # d) k v = (if k' = k then (k, v) # d else (k', v') # dict_set d k v)"

text \<open>
  \<open>if value: d[key] = value\<close> for an optional string argument: \<open>None\<close> and the empty string
  are both falsy.
\<close>

definition set_if_truthy ::
  "(string \<times> json) list \<Rightarrow> string \<Rightarrow> string option \<Rightarrow> (string \<times> json) list" where
  "set_if_truthy d k arg =
     (case arg of None \<Rightarrow> d | Some s \<Rightarrow> if s \<noteq> [] then dict_set d k (JStr s) else d)"

text \<open>The count line that ends a listing: \<open>print(f"\n({len(data)} <noun>)")\<close>.\<close>

definition count_line :: "'a list \<Rightarrow> string \<Rightarrow> string" where
  "count_line xs noun = ''\<newline>('' @ int_str (int (length xs)) @ '' '' @ noun @ '')''"

section \<open>groups.py\<close>

datatype groups_command =
    Groups_list
  | Groups_info string
  | Groups_participants string
  | Groups_create string "string list"

text \<open>
  The two loops of \<open>main\<close>: the line that the f-string builds from an item, and the body
  of the loop, which looks up \<open>get\<close> on the item and prints the line.
\<close>

definition groups_list_line :: "(string \<times> json) list \<Rightarrow> string" where
  "groups_list_line g =
     ''  '' @ py_str (dict_get g ''id'' (JStr ''?'')) @ ''  ''
     @ py_str (dict_get g ''subject'' (dict_get g ''name'' (JStr '''')))
     @ '' ('' @ py_str (dict_get g ''size'' (JStr ''?'')) @ '' members)''"

definition groups_list_item :: "json \<Rightarrow> unit io" where
  "groups_list_item g = seq (get_of g) (\<lambda>d. print (groups_list_line d))"

definition groups_participants_line :: "(string \<times> json) list \<Rightarrow> string" where
  "groups_participants_line pt =
     ''  '' @ py_str (dict_get pt ''id'' (JStr ''?'')) @ ''  ''
     @ py_str (dict_get pt ''role'' (dict_get pt ''isAdmin'' (JStr '''')))"

definition groups_participants_item :: "json \<Rightarrow> unit io" where
  "groups_participants_item pt = seq (get_of pt) (\<lambda>d. print (groups_participants_line d))"

definition groups_main :: "groups_command command_args \<Rightarrow> server \<Rightarrow> config \<Rightarrow> unit io" where
  "groups_main args srv cfg =
     (let c = client cfg in
      case command args of
        Groups_list \<Rightarrow>
          seq (seq (http_get srv c (''/api/'' @ session args @ ''/groups'') None) check)
            (\<lambda>data. case data of
               JList items \<Rightarrow>
                 seq (for_each groups_list_item items) (\<lambda>_. print (count_line items ''groups''))
             | _ \<Rightarrow> pp data)
      | Groups_info group_id \<Rightarrow>
          seq (seq (http_get srv c (''/api/'' @ session args @ ''/groups/'' @ group_id) None)
                 check) pp
      | Groups_participants group_id \<Rightarrow>
          seq (seq (http_get srv c
                      (''/api/'' @ session args @ ''/groups/'' @ group_id @ ''/participants'')
                      None) check)
            (\<lambda>data. case data of
               JList items \<Rightarrow>
                 seq (for_each groups_participants_item items)
                   (\<lambda>_. print (count_line items ''participants''))
             | _ \<Rightarrow> pp data)
      | Groups_create name participants \<Rightarrow>
          (let payload =
                 JDict [(''name'', JStr name),
                        (''participants'',
                         JList (map (\<lambda>pid. JDict [(''id'', JStr pid)]) participants))]
           in seq (seq (http_post srv c (''/api/'' @ session args @ ''/groups'') (Some payload))
                     check) pp))"

section \<open>contacts.py\<close>

datatype contacts_command =
    Contacts_list
  | Contacts_info string
  | Contacts_check string
  | Contacts_block string
  | Contacts_unblock string

definition contacts_list_line :: "(string \<times> json) list \<Rightarrow> string" where
  "contacts_list_line ct =
     ''  '' @ py_str (dict_get ct ''id'' (JStr ''?'')) @ ''  ''
     @ py_str (dict_get ct ''name'' (dict_get ct ''pushname'' (JStr '''')))"

definition contacts_list_item :: "json \<Rightarrow> unit io" where
  "contacts_list_item ct = seq (get_of ct) (\<lambda>d. print (contacts_list_line d))"

text \<open>
  The lines of the \<open>check\<close> command after the request: the dump, and for a dict the
  sentence about the number.
\<close>

definition contacts_check_report :: "string \<Rightarrow> json \<Rightarrow> unit io" where
  "contacts_check_report phone data =
     seq (pp data) (\<lambda>_.
       case data of
         JDict d \<Rightarrow>
           (let exists = py_or (dict_get d ''numberExists'' JNull) (dict_get d ''chatId'' JNull);
                status = (if truthy exists then ''exists'' else ''NOT found'')
            in print (''\<newline>  Number '' @ phone @ '' '' @ status @ '' on WhatsApp''))
       | _ \<Rightarrow> (\<lambda>w. (Inr (), w)))"

definition contacts_main ::
  "contacts_command command_args \<Rightarrow> server \<Rightarrow> config \<Rightarrow> unit io" where
  "contacts_main args srv cfg =
     (let c = client cfg in
      case command args of
        Contacts_list \<Rightarrow>
          seq (seq (http_get srv c ''/api/contacts/all''
                      (Some [(''session'', JStr (session args))])) check)
            (\<lambda>data. case data of
               JList items \<Rightarrow>
                 seq (for_each contacts_list_item items)
                   (\<lambda>_. print (count_line items ''contacts''))
             | _ \<Rightarrow> pp data)
      | Contacts_info contact_id \<Rightarrow>
          seq (seq (http_get srv c ''/api/contacts''
                      (Some [(''session'', JStr (session args)),
                             (''contactId'', JStr contact_id)])) check) pp
      | Contacts_check phone \<Rightarrow>
          seq (seq (http_get srv c ''/api/contacts/check-exists''
                      (Some [(''session'', JStr (session args)), (''phone'', JStr phone)]))
                 check)
            (contacts_check_report phone)
      | Contacts_block contact_id \<Rightarrow>
          seq (seq (http_post srv c ''/api/contacts/block''
                      (Some (JDict [(''session'', JStr (session args)),
                                    (''contactId'', JStr contact_id)]))) check) pp
      | Contacts_unblock contact_id \<Rightarrow>
          seq (seq (http_post srv c ''/api/contacts/unblock''
                      (Some (JDict [(''session'', JStr (session args)),
                                    (''contactId'', JStr contact_id)]))) check) pp)"

section \<open>list_chats.py\<close>

datatype list_chats_command =
    Chats
  | Overview
  | Messages string

record list_chats_args = "list_chats_command command_args" +
  limit :: int
  offset :: int
  download_media :: bool

text \<open>The line \<open>f"  {chat.get('id', '?')}  {chat.get('name', '')}"\<close> of a chat.\<close>

definition chat_line :: "(string \<times> json) list \<Rightarrow> string" where
  "chat_line chat =
     ''  '' @ py_str (dict_get chat ''id'' (JStr ''?'')) @ ''  ''
     @ py_str (dict_get chat ''name'' (JStr ''''))"

definition list_chats_item :: "json \<Rightarrow> unit io" where
  "list_chats_item chat = seq (get_of chat) (\<lambda>d. print (chat_line d))"

definition list_chats :: "server \<Rightarrow> config \<Rightarrow> string \<Rightarrow> int \<Rightarrow> int \<Rightarrow> unit io" where
  "list_chats srv cfg session' limit' offset' =
     seq (seq (http_get srv (client cfg) (''/api/'' @ session' @ ''/chats'')
                 (Some [(''limit'', JInt limit'), (''offset'', JInt offset'),
                        (''sortBy'', JStr ''conversationTimestamp''),
                        (''sortOrder'', JStr ''desc'')])) check)
       (\<lambda>data. case data of
          JList items \<Rightarrow>
            seq (for_each list_chats_item items) (\<lambda>_. print (count_line items ''chats''))
        | _ \<Rightarrow> pp data)"

text \<open>
  \<open>x[:80]\<close>: a string or a list is cut to its first 80 elements; a value of another type
  cannot be sliced, which raises (\<open>TypeError\<close>; for a dict Python 3.12 and later raise
  \<open>KeyError\<close> instead).
\<close>

definition slice80 :: "json \<Rightarrow> exn + json" where
  "slice80 x =
     (case x of
        JStr s \<Rightarrow> Inr (JStr (take 80 s))
      | JList xs \<Rightarrow> Inr (JList (take 80 xs))
      | _ \<Rightarrow> Inl TypeError)"

text \<open>
  The value \<open>body\<close> of a round of the loop of \<open>list_overview\<close>, or the exception that
  computing it raises: \<open>last = chat.get("lastMessage") or {}\<close>, where \<open>last\<close> must have the
  attribute \<open>get\<close>, and \<open>body = (last.get("body") or "")[:80]\<close>.
\<close>

definition overview_body :: "(string \<times> json) list \<Rightarrow> exn + json" where
  "overview_body chat =
     (case py_or (dict_get chat ''lastMessage'' JNull) (JDict []) of
        JDict last_message \<Rightarrow>
          slice80 (py_or (dict_get last_message ''body'' JNull) (JStr ''''))
      | _ \<Rightarrow> Inl AttributeError)"

text \<open>A computation without effect, which returns its value or raises its exception.\<close>

definition raise_or_return :: "exn + 'a \<Rightarrow> 'a io" where
  "raise_or_return r w = (r, w)"

text \<open>
  The body of the loop of \<open>list_overview\<close>: \<open>body\<close> is computed first, then the line of
  the chat is printed, then the preview when \<open>body\<close> is truthy.
\<close>

definition list_overview_item :: "json \<Rightarrow> unit io" where
  "list_overview_item chat =
     seq (get_of chat) (\<lambda>d.
     seq (raise_or_return (overview_body d)) (\<lambda>body.
     seq (print (chat_line d)) (\<lambda>_.
       if truthy body then print (''    -> '' @ py_str body)
       else raise_or_return (Inr ()))))"

definition list_overview :: "server \<Rightarrow> config \<Rightarrow> string \<Rightarrow> int \<Rightarrow> int \<Rightarrow> unit io" where
  "list_overview srv cfg session' limit' offset' =
     seq (seq (http_get srv (client cfg) (''/api/'' @ session' @ ''/chats/overview'')
                 (Some [(''limit'', JInt limit'), (''offset'', JInt offset')])) check)
       (\<lambda>data. case data of
          JList items \<Rightarrow>
            seq (for_each list_overview_item items) (\<lambda>_. print (count_line items ''chats''))
        | _ \<Rightarrow> pp data)"

text \<open>The two lines that the loop of \<open>list_messages\<close> prints for a message.\<close>

definition message_line :: "(string \<times> json) list \<Rightarrow> string" where
  "message_line msg =
     (let sender = (if truthy (dict_get msg ''fromMe'' JNull) then JStr ''me''
                    else dict_get msg ''from'' (JStr ''?''));
          media = (if truthy (dict_get msg ''hasMedia'' JNull) then '' [media]'' else '''')
      in ''  ['' @ py_str (dict_get msg ''timestamp'' (JStr '''')) @ ''] ''
         @ py_str sender @ '': '' @ py_str (dict_get msg ''body'' (JStr '''')) @ media)"

definition message_id_line :: "(string \<times> json) list \<Rightarrow> string" where
  "message_id_line msg = ''           id: '' @ py_str (dict_get msg ''id'' (JStr ''''))"

definition list_messages_item :: "json \<Rightarrow> unit io" where
  "list_messages_item msg =
     seq (get_of msg) (\<lambda>d.
       seq (print (message_line d)) (\<lambda>_. print (message_id_line d)))"

definition list_messages ::
  "server \<Rightarrow> config \<Rightarrow> string \<Rightarrow> string \<Rightarrow> int \<Rightarrow> int \<Rightarrow> bool \<Rightarrow> unit io" where
  "list_messages srv cfg session' chat_id' limit' offset' download_media' =
     seq (seq (http_get srv (client cfg)
                 (''/api/'' @ session' @ ''/chats/'' @ chat_id' @ ''/messages'')
                 (Some [(''limit'', JInt limit'), (''offset'', JInt offset'),
                        (''downloadMedia'',
                         JStr (if download_media' then ''true'' else ''false'')),
                        (''sortBy'', JStr ''timestamp''),
                        (''sortOrder'', JStr ''desc'')])) check)
       (\<lambda>data. case data of
          JList items \<Rightarrow>
            seq (for_each list_messages_item (rev items))
              (\<lambda>_. print (count_line items ''messages''))
        | _ \<Rightarrow> pp data)"

definition list_chats_main :: "list_chats_args \<Rightarrow> server \<Rightarrow> config \<Rightarrow> unit io" where
  "list_chats_main args srv cfg =
     (case command args of
        Chats \<Rightarrow> list_chats srv cfg (session args) (limit args) (offset args)
      | Overview \<Rightarrow> list_overview srv cfg (session args) (limit args) (offset args)
      | Messages chat_id \<Rightarrow>
          list_messages srv cfg (session args) chat_id (limit args) (offset args)
            (download_media args))"

section \<open>session.py\<close>

datatype session_action = Start | Stop | Restart | Logout

fun action_name :: "session_action \<Rightarrow> string" where
  "action_name Start = ''start''"
| "action_name Stop = ''stop''"
| "action_name Restart = ''restart''"
| "action_name Logout = ''logout''"

datatype session_command =
    Session_list
  | Session_info string
  | Session_action session_action string

definition session_list_line :: "(string \<times> json) list \<Rightarrow> string" where
  "session_list_line s =
     ''  '' @ py_str (dict_get s ''name'' (JStr ''?'')) @ ''  [''
     @ py_str (dict_get s ''status'' (JStr ''?'')) @ '']''"

definition session_list_item :: "json \<Rightarrow> unit io" where
  "session_list_item s = seq (get_of s) (\<lambda>d. print (session_list_line d))"

definition session_main :: "session_command \<Rightarrow> server \<Rightarrow> config \<Rightarrow> unit io" where
  "session_main cmd srv cfg =
     (let c = client cfg in
      case cmd of
        Session_list \<Rightarrow>
          seq (seq (http_get srv c ''/api/sessions'' None) check)
            (\<lambda>data. case data of
               JList items \<Rightarrow>
                 seq (for_each session_list_item items)
                   (\<lambda>_. print (count_line items ''sessions''))
             | _ \<Rightarrow> pp data)
      | Session_info name \<Rightarrow>
          seq (seq (http_get srv c (''/api/sessions/'' @ name) None) check) pp
      | Session_action act name \<Rightarrow>
          seq (seq (seq (http_post srv c (''/api/sessions/'' @ name @ ''/'' @ action_name act)
                           None) check) pp)
            (\<lambda>_. print (''  Session '' @ [CHR 0x27] @ name @ [CHR 0x27] @ '' -> ''
                         @ action_name act)))"

section \<open>send_message.py and send_media.py\<close>

record send_args = session_arg +
  chat_id :: string
  reply_to :: "string option"

record send_message_args = send_args +
  message :: string

text \<open>The dict \<open>payload\<close> of \<open>send_message.main\<close>; \<open>message\<close> is the argument \<open>text\<close>.\<close>

definition send_message_payload :: "send_message_args \<Rightarrow> (string \<times> json) list" where
  "send_message_payload args =
     set_if_truthy
       [(''chatId'', JStr (chat_id args)), (''text'', JStr (message args)),
        (''session'', JStr (session args))]
       ''reply_to'' (reply_to args)"

definition send_message_main :: "send_message_args \<Rightarrow> server \<Rightarrow> config \<Rightarrow> unit io" where
  "send_message_main args srv cfg =
     seq (seq (http_post srv (client cfg) ''/api/sendText''
                 (Some (JDict (send_message_payload args)))) check) pp"

datatype media_type = Image | File | Video | Voice

text \<open>The table \<open>ENDPOINTS\<close>, whose keys are the choices of \<open>media_type\<close>.\<close>

fun ENDPOINTS :: "media_type \<Rightarrow> string" where
  "ENDPOINTS Image = ''/api/sendImage''"
| "ENDPOINTS File = ''/api/sendFile''"
| "ENDPOINTS Video = ''/api/sendVideo''"
| "ENDPOINTS Voice = ''/api/sendVoice''"

record send_media_args = send_args +
  media_type :: media_type
  url :: string
  caption :: "string option"
  filename :: "string option"
  mimetype :: "string option"

text \<open>The dicts \<open>file_obj\<close> and \<open>payload\<close> of \<open>send_media.main\<close>.\<close>

definition send_media_file_obj :: "send_media_args \<Rightarrow> (string \<times> json) list" where
  "send_media_file_obj args =
     set_if_truthy
       (set_if_truthy [(''url'', JStr (url args))] ''mimetype'' (mimetype args))
       ''filename'' (filename args)"

definition send_media_payload :: "send_media_args \<Rightarrow> (string \<times> json) list" where
  "send_media_payload args =
     (let payload =
            [(''chatId'', JStr (chat_id args)), (''file'', JDict (send_media_file_obj args)),
             (''session'', JStr (session args))];
          payload = set_if_truthy payload ''caption'' (caption args);
          payload = set_if_truthy payload ''reply_to'' (reply_to args)
      in if media_type args = Video \<or> media_type args = Voice
         then dict_set payload ''convert'' (JBool True) else payload)"

definition send_media_main :: "send_media_args \<Rightarrow> server \<Rightarrow> config \<Rightarrow> unit io" where
  "send_media_main args srv cfg =
     seq (seq (http_post srv (client cfg) (ENDPOINTS (media_type args))
                 (Some (JDict (send_media_payload args)))) check) pp"

section \<open>Properties of the response checker\<close>

lemma die_eq: "die msg w = (Inl (SystemExit 1), w\<lparr>stderr := stderr w @ [''Error: '' @ msg]\<rparr>)"
  by (simp add: die_def seq_def print_stderr_def sys_exit_def)

text \<open>
  Claim C1, as the code has it. A response with a status of 400 or more ends the process
  with exit code 1; the only output is one line on the diagnostic stream, the prefix
  \<open>Error:\<close> followed by \<open>HTTP <code>: <detail>\<close>, where the detail is the decoded body when
  there is one and the raw text otherwise; standard output and the requests are untouched.
  A response with a status below 400 whose body decodes is answered by the decoded body,
  with no output at all.
\<close>

theorem check_status:
  "(400 \<le> status_code r \<longrightarrow>
      check r w =
        (Inl (SystemExit 1),
         w\<lparr>stderr := stderr w @
            [''Error: '' @ ''HTTP '' @ int_str (status_code r) @ '': '' @
             py_str (case json_body r of Some j \<Rightarrow> j | None \<Rightarrow> JStr (text_body r))]\<rparr>)
      \<and> stdout (snd (check r w)) = stdout w)
   \<and> (status_code r < 400 \<longrightarrow> json_body r = Some j \<longrightarrow> check r w = (Inr j, w))"
  by (simp add: check_def die_eq)

text \<open>
  The theorem at work: an error with a JSON body, an error with a body that is no JSON,
  and a success.
\<close>

theorem check_status_witness:
  "check \<lparr>status_code = 404, json_body = Some (JDict [(''error'', JStr ''x'')]),
           text_body = ''{\"error\": \"x\"}''\<rparr>
         \<lparr>stdout = [], stderr = [], requests = []\<rparr>
     = (Inl (SystemExit 1),
        \<lparr>stdout = [], stderr = [''Error: HTTP 404: {'error': 'x'}''], requests = []\<rparr>)
   \<and> check \<lparr>status_code = 502, json_body = None, text_body = ''Bad Gateway''\<rparr>
         \<lparr>stdout = [], stderr = [], requests = []\<rparr>
     = (Inl (SystemExit 1),
        \<lparr>stdout = [], stderr = [''Error: HTTP 502: Bad Gateway''], requests = []\<rparr>)
   \<and> check \<lparr>status_code = 200, json_body = Some (JList [JInt 1]), text_body = ''[1]''\<rparr>
         \<lparr>stdout = [], stderr = [], requests = []\<rparr>
     = (Inr (JList [JInt 1]), \<lparr>stdout = [], stderr = [], requests = []\<rparr>)"
  using
    check_status [of "\<lparr>status_code = 404, json_body = Some (JDict [(''error'', JStr ''x'')]),
                       text_body = ''{\"error\": \"x\"}''\<rparr>"
      "\<lparr>stdout = [], stderr = [], requests = []\<rparr>"]
    check_status [of "\<lparr>status_code = 502, json_body = None, text_body = ''Bad Gateway''\<rparr>"
      "\<lparr>stdout = [], stderr = [], requests = []\<rparr>"]
    check_status [of "\<lparr>status_code = 200, json_body = Some (JList [JInt 1]),
                       text_body = ''[1]''\<rparr>"
      "\<lparr>stdout = [], stderr = [], requests = []\<rparr>" "JList [JInt 1]"]
  by (simp add: int_str_def nat_str.simps py_str_def repr_str_def repr_char_def
        isprintable_def Let_def)

text \<open>
  A response with a status below 400 whose body does not decode (an empty body of a
  204, say) is not answered by a decoded body: \<open>resp.json()\<close> raises and nothing catches it.
\<close>

theorem check_undecodable_counterexample:
  "check \<lparr>status_code = 204, json_body = None, text_body = ''''\<rparr>
         \<lparr>stdout = [], stderr = [], requests = []\<rparr>
     = (Inl JSONDecodeError, \<lparr>stdout = [], stderr = [], requests = []\<rparr>)"
  by (simp add: check_def)

section \<open>Properties of the environment loader\<close>

lemma load_env_line_entry:
  "load_env_line env raw =
     (case env_entry raw of
        None \<Rightarrow> Inr env
      | Some (key, value) \<Rightarrow>
          if env key = None then environ_set env key value else Inr env)"
  by (simp add: load_env_line_def env_entry_def Let_def split: prod.splits)

text \<open>Entries without a NUL character are all stored or skipped; none raises.\<close>

lemma load_env_lines_entries:
  "list_all (\<lambda>(key, value). CHR 0x00 \<notin> set key \<and> CHR 0x00 \<notin> set value)
     (List.map_filter env_entry ls) \<Longrightarrow>
   load_env_lines env ls =
     Inr (\<lambda>k. case env k of
               Some v \<Rightarrow> Some v
             | None \<Rightarrow> map_of (List.map_filter env_entry ls) k)"
proof (induction ls arbitrary: env)
  case Nil
  then show ?case by (auto simp: List.map_filter_simps split: option.splits)
next
  case (Cons raw ls)
  show ?case
  proof (cases "env_entry raw")
    case None
    then show ?thesis
      using Cons.IH [of env] Cons.prems
      by (simp add: load_env_line_entry List.map_filter_simps cong: option.case_cong)
  next
    case (Some kv)
    obtain key val where kv: "kv = (key, val)" by (cases kv)
    have clean: "CHR 0x00 \<notin> set key" "CHR 0x00 \<notin> set val"
      and rest: "list_all (\<lambda>(key, value). CHR 0x00 \<notin> set key \<and> CHR 0x00 \<notin> set value)
                   (List.map_filter env_entry ls)"
      using Cons.prems Some kv by (simp_all add: List.map_filter_simps)
    have step: "load_env_line env raw =
                  (if env key = None then Inr (env(key \<mapsto> val)) else Inr env)"
      using Some kv clean by (simp add: load_env_line_entry environ_set_def)
    show ?thesis
    proof (cases "env key")
      case None
      have "load_env_lines env (raw # ls) = load_env_lines (env(key \<mapsto> val)) ls"
        using None by (simp add: step)
      also have "\<dots> = Inr (\<lambda>k. case (env(key \<mapsto> val)) k of
                                Some v \<Rightarrow> Some v
                              | None \<Rightarrow> map_of (List.map_filter env_entry ls) k)"
        by (rule Cons.IH [OF rest])
      also have "(\<lambda>k. case (env(key \<mapsto> val)) k of
                       Some v \<Rightarrow> Some v
                     | None \<Rightarrow> map_of (List.map_filter env_entry ls) k)
                 = (\<lambda>k. case env k of
                       Some v \<Rightarrow> Some v
                     | None \<Rightarrow> map_of (List.map_filter env_entry (raw # ls)) k)"
        using None \<open>env_entry raw = Some kv\<close> kv
        by (auto simp: fun_eq_iff List.map_filter_simps split: option.splits)
      finally show ?thesis .
    next
      case (Some v)
      have "load_env_lines env (raw # ls) = load_env_lines env ls"
        using Some by (simp add: step)
      also have "\<dots> = Inr (\<lambda>k. case env k of
                                Some v \<Rightarrow> Some v
                              | None \<Rightarrow> map_of (List.map_filter env_entry ls) k)"
        by (rule Cons.IH [OF rest])
      also have "(\<lambda>k. case env k of
                       Some v \<Rightarrow> Some v
                     | None \<Rightarrow> map_of (List.map_filter env_entry ls) k)
                 = (\<lambda>k. case env k of
                       Some v \<Rightarrow> Some v
                     | None \<Rightarrow> map_of (List.map_filter env_entry (raw # ls)) k)"
        using Some \<open>env_entry raw = Some kv\<close> kv
        by (auto simp: fun_eq_iff List.map_filter_simps split: option.splits)
      finally show ?thesis .
    qed
  qed
qed

text \<open>The characters of the entries of a file are characters of the file.\<close>

lemma set_strip: "set (strip s) \<subseteq> set s"
proof -
  have "set (strip s) \<subseteq> set (dropWhile isspace s)"
    unfolding strip_def using set_dropWhileD [of _ isspace "rev (dropWhile isspace s)"]
    by auto
  then show ?thesis using set_dropWhileD [of _ isspace s] by auto
qed

lemma set_partition_eq:
  "set (fst (partition_eq s)) \<subseteq> set s" "set (snd (partition_eq s)) \<subseteq> set s"
  using set_takeWhileD [of _ "\<lambda>c. c \<noteq> CHR ''=''" s]
    set_dropWhileD [of _ "\<lambda>c. c \<noteq> CHR ''=''" s]
    in_set_dropD [of _ 1 "dropWhile (\<lambda>c. c \<noteq> CHR ''='') s"]
  by (auto simp: partition_eq_def)

lemma env_entry_chars:
  assumes "env_entry raw = Some (key, value)"
  shows "set key \<subseteq> set raw" "set value \<subseteq> set raw"
proof -
  have "key = strip (fst (partition_eq (strip raw)))"
    and "value = strip (snd (partition_eq (strip raw)))"
    using assms by (auto simp: env_entry_def Let_def split: if_splits)
  then show "set key \<subseteq> set raw" "set value \<subseteq> set raw"
    using set_strip [of raw] set_strip [of "fst (partition_eq (strip raw))"]
      set_strip [of "snd (partition_eq (strip raw))"] set_partition_eq [of "strip raw"]
    by blast+
qed

lemma splitlines_from_chars:
  "l \<in> set (splitlines_from cur s) \<Longrightarrow> set l \<subseteq> set cur \<union> set s"
proof (induction cur s rule: splitlines_from.induct)
  case (1 cur)
  then show ?case by (auto split: if_splits)
next
  case (2 cur c cs)
  show ?case
  proof (cases "is_linebreak c")
    case True
    then have "l = cur \<or>
        l \<in> set (splitlines_from []
                   (if c = CHR 0x0D \<and> take 1 cs = [CHR 0x0A] then drop 1 cs else cs))"
      using "2.prems" by simp
    then show ?thesis
    proof
      assume "l = cur"
      then show ?thesis by auto
    next
      assume "l \<in> set (splitlines_from []
                   (if c = CHR 0x0D \<and> take 1 cs = [CHR 0x0A] then drop 1 cs else cs))"
      then have "set l \<subseteq> set (if c = CHR 0x0D \<and> take 1 cs = [CHR 0x0A] then drop 1 cs else cs)"
        using "2.IH"(1) [OF True] by simp
      then show ?thesis
        using set_drop_subset [of 1 cs] by (auto split: if_splits)
    qed
  next
    case False
    then show ?thesis using "2.IH"(2) [OF False] "2.prems" by auto
  qed
qed

lemma map_filter_source:
  "y \<in> set (List.map_filter f xs) \<Longrightarrow> \<exists>x. x \<in> set xs \<and> f x = Some y"
  by (induction xs) (auto split: option.splits)

lemma nul_free_entries:
  assumes "CHR 0x00 \<notin> set content"
  shows "list_all (\<lambda>(key, value). CHR 0x00 \<notin> set key \<and> CHR 0x00 \<notin> set value)
           (env_entries content)"
proof -
  have "CHR 0x00 \<notin> set key \<and> CHR 0x00 \<notin> set val"
    if "(key, val) \<in> set (env_entries content)" for key val
  proof -
    have "(key, val) \<in> set (List.map_filter env_entry (splitlines content))"
      using that by (simp add: env_entries_def)
    then obtain raw where raw: "raw \<in> set (splitlines content)" "env_entry raw = Some (key, val)"
      using map_filter_source by fast
    have "set raw \<subseteq> set content"
      using splitlines_from_chars [of raw Nil content] raw(1) by (simp add: splitlines_def)
    then show ?thesis using env_entry_chars [OF raw(2)] assms by blast
  qed
  then show ?thesis by (auto simp: list_all_iff)
qed

lemma load_env_lines_keeps:
  "load_env_lines env ls = Inr env' \<Longrightarrow> env k = Some v \<Longrightarrow> env' k = Some v"
proof (induction ls arbitrary: env)
  case Nil
  then show ?case by simp
next
  case (Cons raw ls)
  then obtain env1 where env1: "load_env_line env raw = Inr env1"
    "load_env_lines env1 ls = Inr env'"
    by (auto split: sum.splits)
  have "env1 k = Some v"
    using env1(1) Cons.prems(2)
    by (auto simp: load_env_line_entry environ_set_def split: option.splits if_splits)
  then show ?case using Cons.IH [OF env1(2)] by simp
qed

text \<open>
  Claim C2, as the code has it. Without a file the environment is left as it is.
  Whatever the file holds, a key that the environment already has keeps its value when
  the loader returns. When no entry of the file has a NUL character in its key or value
  (in particular when the file has no NUL character), the loader returns, and a key that
  the environment does not have gets the trimmed value of the first entry of the file
  for that key (an entry being a line that is not blank, is no comment and has an \<open>=\<close>,
  split at its first \<open>=\<close>, with a non-empty trimmed key); a key with no entry stays unset.
  Later entries for the same key change nothing.
\<close>

theorem load_env_result:
  "load_env None env = Inr env
   \<and> (load_env fl env = Inr env' \<longrightarrow> env k = Some v \<longrightarrow> env' k = Some v)
   \<and> (list_all (\<lambda>(key, value). CHR 0x00 \<notin> set key \<and> CHR 0x00 \<notin> set value)
         (env_entries content) \<longrightarrow>
       load_env (Some content) env =
         Inr (\<lambda>k. case env k of Some v \<Rightarrow> Some v | None \<Rightarrow> map_of (env_entries content) k))
   \<and> (CHR 0x00 \<notin> set content \<longrightarrow>
       load_env (Some content) env =
         Inr (\<lambda>k. case env k of Some v \<Rightarrow> Some v | None \<Rightarrow> map_of (env_entries content) k))"
proof -
  have keeps: "load_env fl env = Inr env' \<longrightarrow> env k = Some v \<longrightarrow> env' k = Some v"
    using load_env_lines_keeps [of env _ env' k v]
    by (cases fl) (auto simp: load_env_def)
  have entries:
    "load_env (Some content) env =
       Inr (\<lambda>k. case env k of Some v \<Rightarrow> Some v | None \<Rightarrow> map_of (env_entries content) k)"
    if "list_all (\<lambda>(key, value). CHR 0x00 \<notin> set key \<and> CHR 0x00 \<notin> set value)
          (env_entries content)"
    using load_env_lines_entries [of "splitlines content" env] that
    by (simp add: load_env_def env_entries_def cong: option.case_cong)
  show ?thesis
    using keeps entries nul_free_entries [of content] by (simp add: load_env_def)
qed

text \<open>
  The theorem at work on a file with a comment, a key that the environment has, a line
  without \<open>=\<close> and a value that contains \<open>=\<close>.
\<close>

theorem load_env_result_witness:
  "CHR 0x00 \<notin> set ''# keys\<newline>WAHA_API_KEY = secret \<newline>WAHA_BASE_URL=http://h?a=b\<newline>JUNK''
   \<and> list_all (\<lambda>(key, value). CHR 0x00 \<notin> set key \<and> CHR 0x00 \<notin> set value)
       (env_entries ''# keys\<newline>WAHA_API_KEY = secret \<newline>WAHA_BASE_URL=http://h?a=b\<newline>JUNK'')
   \<and> load_env (Some ''# keys\<newline>WAHA_API_KEY = secret \<newline>WAHA_BASE_URL=http://h?a=b\<newline>JUNK'')
       (Map.empty(''WAHA_API_KEY'' \<mapsto> ''real''))
     = Inr (\<lambda>k. case (Map.empty(''WAHA_API_KEY'' \<mapsto> ''real'')) k of
                Some v \<Rightarrow> Some v
              | None \<Rightarrow> map_of [(''WAHA_API_KEY'', ''secret''),
                                (''WAHA_BASE_URL'', ''http://h?a=b'')] k)
   \<and> (case load_env
            (Some ''# keys\<newline>WAHA_API_KEY = secret \<newline>WAHA_BASE_URL=http://h?a=b\<newline>JUNK'')
            (Map.empty(''WAHA_API_KEY'' \<mapsto> ''real'')) of
        Inl e \<Rightarrow> []
      | Inr env' \<Rightarrow> map env' [''WAHA_API_KEY'', ''WAHA_BASE_URL'', ''JUNK''])
     = [Some ''real'', Some ''http://h?a=b'', None]"
proof -
  have entries:
    "env_entries ''# keys\<newline>WAHA_API_KEY = secret \<newline>WAHA_BASE_URL=http://h?a=b\<newline>JUNK''
       = [(''WAHA_API_KEY'', ''secret''), (''WAHA_BASE_URL'', ''http://h?a=b'')]"
    by code_simp
  have clean:
    "CHR 0x00 \<notin> set ''# keys\<newline>WAHA_API_KEY = secret \<newline>WAHA_BASE_URL=http://h?a=b\<newline>JUNK''"
    by simp
  have safe:
    "list_all (\<lambda>(key, value). CHR 0x00 \<notin> set key \<and> CHR 0x00 \<notin> set value)
       (env_entries ''# keys\<newline>WAHA_API_KEY = secret \<newline>WAHA_BASE_URL=http://h?a=b\<newline>JUNK'')"
    unfolding entries by simp
  have loaded:
    "load_env (Some ''# keys\<newline>WAHA_API_KEY = secret \<newline>WAHA_BASE_URL=http://h?a=b\<newline>JUNK'')
       (Map.empty(''WAHA_API_KEY'' \<mapsto> ''real''))
     = Inr (\<lambda>k. case (Map.empty(''WAHA_API_KEY'' \<mapsto> ''real'')) k of
              Some v \<Rightarrow> Some v
            | None \<Rightarrow> map_of [(''WAHA_API_KEY'', ''secret''),
                              (''WAHA_BASE_URL'', ''http://h?a=b'')] k)"
    using
      load_env_result [where env = "Map.empty(''WAHA_API_KEY'' \<mapsto> ''real'')"
        and content = "''# keys\<newline>WAHA_API_KEY = secret \<newline>WAHA_BASE_URL=http://h?a=b\<newline>JUNK''"]
      clean safe
    unfolding entries by blast
  have kept:
    "(\<lambda>k. case (Map.empty(''WAHA_API_KEY'' \<mapsto> ''real'')) k of
              Some v \<Rightarrow> Some v
            | None \<Rightarrow> map_of [(''WAHA_API_KEY'', ''secret''),
                              (''WAHA_BASE_URL'', ''http://h?a=b'')] k) ''WAHA_API_KEY''
       = Some ''real''"
    using
      load_env_result [where env = "Map.empty(''WAHA_API_KEY'' \<mapsto> ''real'')"
        and fl = "Some ''# keys\<newline>WAHA_API_KEY = secret \<newline>WAHA_BASE_URL=http://h?a=b\<newline>JUNK''"
        and k = "''WAHA_API_KEY''" and v = "''real''"] loaded
    by simp
  show ?thesis
    using clean safe kept unfolding loaded by simp
qed

text \<open>
  Not every entry sets its key. In the file of two lines \<open>A=1\<close> and \<open>A=2\<close>, read into
  an empty environment, the second line is an entry for the key \<open>A\<close>, which the initial
  environment does not have, and yet \<open>A\<close> ends as \<open>1\<close>. And in a file whose second line
  has a NUL character in its value, the assignment raises \<open>ValueError\<close>: the loader does
  not return, and the key \<open>B\<close> of the third line is never set.
\<close>

theorem load_env_duplicate_counterexample:
  "env_entry ''A=2'' = Some (''A'', ''2'')
   \<and> ''A=2'' \<in> set (splitlines ''A=1\<newline>A=2'')
   \<and> Map.empty ''A'' = (None :: string option)
   \<and> (case load_env (Some ''A=1\<newline>A=2'') Map.empty of
        Inl e \<Rightarrow> None
      | Inr env' \<Rightarrow> env' ''A'') = Some ''1''
   \<and> (case load_env
            (Some (''WAHA_API_KEY=k\<newline>A=x'' @ [CHR 0x00] @ ''y\<newline>B=2'')) Map.empty of
        Inl e \<Rightarrow> Some e
      | Inr env' \<Rightarrow> None) = Some ValueError"
  by code_simp

section \<open>Properties of module initialisation\<close>

text \<open>
  Claim C4. When, after the file is loaded, the environment has no \<open>WAHA_API_KEY\<close> or an
  empty one, every script ends with exit code 1 in its import of the client module: the
  message goes to the diagnostic stream, \<open>main\<close> does not run, and so nothing is written to
  standard output and no request is sent.
\<close>

theorem missing_api_key_exits:
  assumes "load_env file env0 = Inr env"
    and "env ''WAHA_API_KEY'' = None \<or> env ''WAHA_API_KEY'' = Some ''''"
  shows "script main file env0 w =
           (Inl (SystemExit 1),
            w\<lparr>stderr := stderr w @
               [''Error: WAHA_API_KEY not set. Check ~/documents/waha/.env'']\<rparr>)
         \<and> requests (snd (script main file env0 w)) = requests w
         \<and> stdout (snd (script main file env0 w)) = stdout w"
  using assms
  by (auto simp: script_def waha_client_def environ_get_def seq_def print_stderr_def
        sys_exit_def Let_def)

text \<open>
  The theorem at work on \<open>send_message.py\<close>, once with no file and an empty environment
  and once with a file that sets the key to the empty string.
\<close>

theorem missing_api_key_exits_witness:
  "script (send_message_main
             \<lparr>session = ''default'', chat_id = ''1@c.us'', reply_to = None, message = ''hi''\<rparr>
             (\<lambda>_. \<lparr>status_code = 200, json_body = Some JNull, text_body = ''null''\<rparr>))
     None Map.empty \<lparr>stdout = [], stderr = [], requests = []\<rparr>
   = (Inl (SystemExit 1),
      \<lparr>stdout = [],
       stderr = [''Error: WAHA_API_KEY not set. Check ~/documents/waha/.env''],
       requests = []\<rparr>)
   \<and> script (send_message_main
             \<lparr>session = ''default'', chat_id = ''1@c.us'', reply_to = None, message = ''hi''\<rparr>
             (\<lambda>_. \<lparr>status_code = 200, json_body = Some JNull, text_body = ''null''\<rparr>))
     (Some ''WAHA_API_KEY='') Map.empty \<lparr>stdout = [], stderr = [], requests = []\<rparr>
   = (Inl (SystemExit 1),
      \<lparr>stdout = [],
       stderr = [''Error: WAHA_API_KEY not set. Check ~/documents/waha/.env''],
       requests = []\<rparr>)"
proof -
  have absent: "load_env None Map.empty = Inr Map.empty"
    by (simp add: load_env_def)
  have entries: "env_entries ''WAHA_API_KEY='' = [(''WAHA_API_KEY'', '''')]"
    by code_simp
  have empty: "load_env (Some ''WAHA_API_KEY='') Map.empty =
                 Inr (\<lambda>k. map_of [(''WAHA_API_KEY'', '''')] k)"
    using load_env_result [where env = Map.empty and content = "''WAHA_API_KEY=''"]
    unfolding entries by simp
  show ?thesis
    using
      missing_api_key_exits [where w = "\<lparr>stdout = [], stderr = [], requests = []\<rparr>",
        OF absent]
      missing_api_key_exits [where w = "\<lparr>stdout = [], stderr = [], requests = []\<rparr>",
        OF empty]
    by simp
qed

section \<open>Requests, loops and dicts: auxiliary facts\<close>

lemma seq_Inr: "m w = (Inr x, w') \<Longrightarrow> seq m f w = f x w'"
  by (simp add: seq_def)

lemma check_ok:
  "status_code resp < 400 \<Longrightarrow> json_body resp = Some j \<Longrightarrow> check resp w = (Inr j, w)"
  by (simp add: check_def)

lemma get_checked:
  assumes "status_code (srv \<lparr>via = c, verb = ''GET'', target = t, params = ps,
                              json_payload = None\<rparr>) < 400"
    and "json_body (srv \<lparr>via = c, verb = ''GET'', target = t, params = ps,
                          json_payload = None\<rparr>) = Some j"
  shows "seq (http_get srv c t ps) check w =
           (Inr j, w\<lparr>requests := requests w @
              [\<lparr>via = c, verb = ''GET'', target = t, params = ps, json_payload = None\<rparr>]\<rparr>)"
  using assms by (simp add: seq_def http_get_def send_def check_ok)

lemma post_requests:
  "requests (snd (seq (seq (http_post srv c t body) check) pp w)) =
     requests w @
       [\<lparr>via = c, verb = ''POST'', target = t, params = None, json_payload = body\<rparr>]"
  by (simp add: seq_def http_post_def send_def check_def die_eq pp_def print_def
        split: option.splits)

lemma for_each_dicts:
  assumes "\<And>d w. body (JDict d) w = (Inr (), w\<lparr>stdout := stdout w @ lines d\<rparr>)"
    and "\<And>x w. \<not> is_dict x \<Longrightarrow> body x w = (Inl AttributeError, w)"
  shows "for_each body xs w =
           (if list_all is_dict xs then Inr () else Inl AttributeError,
            w\<lparr>stdout := stdout w @ concat (map lines (leading_dicts xs))\<rparr>)"
proof (induction xs arbitrary: w)
  case Nil
  then show ?case by simp
next
  case (Cons x xs)
  show ?case
  proof (cases x)
    case (JDict d)
    then show ?thesis using Cons.IH assms(1) by simp
  qed (use assms(2) in simp_all)
qed

lemma leading_dicts_map [simp]: "leading_dicts (map JDict ds) = ds"
  by (induction ds) simp_all

lemma list_all_is_dict_map [simp]: "list_all is_dict (map JDict ds)"
  by (induction ds) simp_all

lemma get_of_dict: "get_of (JDict d) w = (Inr d, w)"
  by (simp add: get_of_def)

lemma get_of_other: "\<not> is_dict x \<Longrightarrow> get_of x w = (Inl AttributeError, w)"
  by (cases x) (simp_all add: get_of_def)

lemma map_of_dict_set: "map_of (dict_set d k v) = (map_of d)(k \<mapsto> v)"
  by (induction d k v rule: dict_set.induct) (auto simp: fun_upd_twist)

lemma map_of_set_if_truthy_other:
  "k' \<noteq> k \<Longrightarrow> map_of (set_if_truthy d k arg) k' = map_of d k'"
  by (simp add: set_if_truthy_def map_of_dict_set split: option.splits)

lemma set_if_truthy_empty: "set_if_truthy d k (Some []) = set_if_truthy d k None"
  by (simp add: set_if_truthy_def)

section \<open>Properties of the command-line grammars\<close>

text \<open>
  Claim C5, as the code has it. The grammars of \<open>groups.py\<close>, \<open>contacts.py\<close>,
  \<open>list_chats.py\<close>, \<open>send_message.py\<close> and \<open>send_media.py\<close> each declare one option with
  the flags \<open>-s\<close> and \<open>--session\<close>, and a command line without it stores \<open>"default"\<close>.
\<close>

theorem session_option_default:
  "list_all
     (\<lambda>p. map_option flags (find_flag p ''-s'') = Some [''-s'', ''--session'']
          \<and> find_flag p ''--session'' = find_flag p ''-s''
          \<and> flag_default p ''-s'' = Some (JStr ''default'')
          \<and> flag_default p ''--session'' = Some (JStr ''default''))
     [groups_parser, contacts_parser, list_chats_parser, send_message_parser,
      send_media_parser]"
  by (simp add: find_flag_def flag_default_def groups_parser_def contacts_parser_def
        list_chats_parser_def send_message_parser_def send_media_parser_def
        optional_def positional_def)

text \<open>
  The grammar of \<open>session.py\<close> declares no option at all: neither \<open>-s\<close> nor \<open>--session\<close>
  selects an argument, no default is stored, and the session is named by the positional
  \<open>name\<close> of the subcommands.
\<close>

theorem session_py_has_no_session_option_counterexample:
  "find_flag session_parser ''-s'' = None
   \<and> find_flag session_parser ''--session'' = None
   \<and> flag_default session_parser ''--session'' = None
   \<and> arguments session_parser = []"
  by (simp add: find_flag_def flag_default_def session_parser_def)

section \<open>Properties of the payloads\<close>

text \<open>
  Claim C6. The payload that \<open>send_media\<close> posts has the member \<open>convert\<close> exactly when
  the media type is video or voice, and then its value is \<open>true\<close>; the payload is the
  JSON body of the one request that the script sends, to the endpoint of the media type.
\<close>

theorem send_media_convert:
  "map_of (send_media_payload args) ''convert'' =
     (if media_type args = Video \<or> media_type args = Voice then Some (JBool True) else None)
   \<and> requests (snd (send_media_main args srv cfg w)) =
       requests w @
         [\<lparr>via = client cfg, verb = ''POST'', target = ENDPOINTS (media_type args),
           params = None, json_payload = Some (JDict (send_media_payload args))\<rparr>]"
  by (simp add: send_media_payload_def Let_def map_of_dict_set map_of_set_if_truthy_other
        send_media_main_def post_requests)

text \<open>
  The theorem of claim C6 at work: a voice note carries the flag, an image does not.
\<close>

theorem send_media_convert_witness:
  "send_media_payload
     \<lparr>session = ''default'', chat_id = ''1@c.us'', reply_to = None, media_type = Voice,
      url = ''http://h/a.ogg'', caption = None, filename = None, mimetype = None\<rparr>
     = [(''chatId'', JStr ''1@c.us''), (''file'', JDict [(''url'', JStr ''http://h/a.ogg'')]),
        (''session'', JStr ''default''), (''convert'', JBool True)]
   \<and> map_of (send_media_payload
       \<lparr>session = ''default'', chat_id = ''1@c.us'', reply_to = None, media_type = Voice,
        url = ''http://h/a.ogg'', caption = None, filename = None, mimetype = None\<rparr>)
       ''convert'' = Some (JBool True)
   \<and> map_of (send_media_payload
       \<lparr>session = ''default'', chat_id = ''1@c.us'', reply_to = None, media_type = Image,
        url = ''http://h/a.png'', caption = Some ''look'', filename = None, mimetype = None\<rparr>)
       ''convert'' = None"
  using
    send_media_convert [where args =
      "\<lparr>session = ''default'', chat_id = ''1@c.us'', reply_to = None, media_type = Voice,
        url = ''http://h/a.ogg'', caption = None, filename = None, mimetype = None\<rparr>"]
    send_media_convert [where args =
      "\<lparr>session = ''default'', chat_id = ''1@c.us'', reply_to = None, media_type = Image,
        url = ''http://h/a.png'', caption = Some ''look'', filename = None, mimetype = None\<rparr>"]
  by (simp add: send_media_payload_def send_media_file_obj_def set_if_truthy_def)

text \<open>
  Claim C10, as the code has it. An optional string argument whose default is \<open>None\<close>,
  given as the empty string, leaves the payload as it is without the option: for
  \<open>--reply-to\<close> of \<open>send_message\<close>, and for \<open>--caption\<close>, \<open>--reply-to\<close>, \<open>--filename\<close> and
  \<open>--mimetype\<close> of \<open>send_media\<close>. In particular the payload then has no member of that
  name. The option \<open>--session\<close>, whose default is \<open>"default"\<close>, is not of this kind: its
  value is the member \<open>session\<close> of both payloads whatever it is, the empty string
  included.
\<close>

theorem empty_option_is_omitted:
  "send_message_payload (args\<lparr>reply_to := Some ''''\<rparr>)
     = send_message_payload (args\<lparr>reply_to := None\<rparr>)
   \<and> map_of (send_message_payload (args\<lparr>reply_to := Some ''''\<rparr>)) ''reply_to'' = None
   \<and> send_media_payload (margs\<lparr>caption := Some ''''\<rparr>)
     = send_media_payload (margs\<lparr>caption := None\<rparr>)
   \<and> map_of (send_media_payload (margs\<lparr>caption := Some ''''\<rparr>)) ''caption'' = None
   \<and> send_media_payload (margs\<lparr>reply_to := Some ''''\<rparr>)
     = send_media_payload (margs\<lparr>reply_to := None\<rparr>)
   \<and> map_of (send_media_payload (margs\<lparr>reply_to := Some ''''\<rparr>)) ''reply_to'' = None
   \<and> send_media_file_obj (margs\<lparr>filename := Some ''''\<rparr>)
     = send_media_file_obj (margs\<lparr>filename := None\<rparr>)
   \<and> map_of (send_media_file_obj (margs\<lparr>filename := Some ''''\<rparr>)) ''filename'' = None
   \<and> send_media_file_obj (margs\<lparr>mimetype := Some ''''\<rparr>)
     = send_media_file_obj (margs\<lparr>mimetype := None\<rparr>)
   \<and> map_of (send_media_file_obj (margs\<lparr>mimetype := Some ''''\<rparr>)) ''mimetype'' = None
   \<and> send_message_main (args\<lparr>reply_to := Some ''''\<rparr>)
     = send_message_main (args\<lparr>reply_to := None\<rparr>)
   \<and> send_media_main
       (margs\<lparr>caption := Some '''', reply_to := Some '''', filename := Some '''',
               mimetype := Some ''''\<rparr>)
     = send_media_main
         (margs\<lparr>caption := None, reply_to := None, filename := None, mimetype := None\<rparr>)
   \<and> map_of (send_message_payload args) ''session'' = Some (JStr (session args))
   \<and> map_of (send_media_payload margs) ''session'' = Some (JStr (session margs))"
proof -
  have none: "\<And>d k. set_if_truthy d k None = d"
    by (simp add: set_if_truthy_def)
  have message_session:
    "map_of (send_message_payload args) ''session'' = Some (JStr (session args))"
    by (simp add: send_message_payload_def map_of_set_if_truthy_other)
  have media_session:
    "map_of (send_media_payload margs) ''session'' = Some (JStr (session margs))"
    by (simp add: send_media_payload_def Let_def map_of_dict_set map_of_set_if_truthy_other)
  have message: "send_message_payload (args\<lparr>reply_to := Some ''''\<rparr>)
                   = send_message_payload (args\<lparr>reply_to := None\<rparr>)"
    by (simp add: send_message_payload_def set_if_truthy_empty)
  have message_member:
    "map_of (send_message_payload (args\<lparr>reply_to := Some ''''\<rparr>)) ''reply_to'' = None"
    by (simp add: send_message_payload_def set_if_truthy_empty none)
  have file_obj:
    "send_media_file_obj (margs\<lparr>caption := x\<rparr>) = send_media_file_obj margs"
    "send_media_file_obj (margs\<lparr>reply_to := x\<rparr>) = send_media_file_obj margs" for x
    by (simp_all add: send_media_file_obj_def)
  have caption: "send_media_payload (margs\<lparr>caption := Some ''''\<rparr>)
                   = send_media_payload (margs\<lparr>caption := None\<rparr>)"
    by (simp add: send_media_payload_def file_obj set_if_truthy_empty)
  have caption_member:
    "map_of (send_media_payload (margs\<lparr>caption := Some ''''\<rparr>)) ''caption'' = None"
    by (simp add: send_media_payload_def Let_def file_obj set_if_truthy_empty none
          map_of_dict_set map_of_set_if_truthy_other)
  have reply: "send_media_payload (margs\<lparr>reply_to := Some ''''\<rparr>)
                 = send_media_payload (margs\<lparr>reply_to := None\<rparr>)"
    by (simp add: send_media_payload_def file_obj set_if_truthy_empty)
  have reply_member:
    "map_of (send_media_payload (margs\<lparr>reply_to := Some ''''\<rparr>)) ''reply_to'' = None"
    by (simp add: send_media_payload_def Let_def file_obj set_if_truthy_empty none
          map_of_dict_set map_of_set_if_truthy_other)
  have name: "send_media_file_obj (margs\<lparr>filename := Some ''''\<rparr>)
                = send_media_file_obj (margs\<lparr>filename := None\<rparr>)"
    by (simp add: send_media_file_obj_def set_if_truthy_empty)
  have name_member:
    "map_of (send_media_file_obj (margs\<lparr>filename := Some ''''\<rparr>)) ''filename'' = None"
    by (simp add: send_media_file_obj_def set_if_truthy_empty none
          map_of_set_if_truthy_other)
  have mime: "send_media_file_obj (margs\<lparr>mimetype := Some ''''\<rparr>)
                = send_media_file_obj (margs\<lparr>mimetype := None\<rparr>)"
    by (simp add: send_media_file_obj_def set_if_truthy_empty)
  have mime_member:
    "map_of (send_media_file_obj (margs\<lparr>mimetype := Some ''''\<rparr>)) ''mimetype'' = None"
    by (simp add: send_media_file_obj_def set_if_truthy_empty none
          map_of_set_if_truthy_other)
  have message_main: "send_message_main (args\<lparr>reply_to := Some ''''\<rparr>)
                        = send_message_main (args\<lparr>reply_to := None\<rparr>)"
    by (intro ext) (simp add: send_message_main_def message)
  have media_main:
    "send_media_main
       (margs\<lparr>caption := Some '''', reply_to := Some '''', filename := Some '''',
               mimetype := Some ''''\<rparr>)
     = send_media_main
         (margs\<lparr>caption := None, reply_to := None, filename := None, mimetype := None\<rparr>)"
    by (intro ext)
      (simp add: send_media_main_def send_media_payload_def send_media_file_obj_def
         set_if_truthy_empty)
  show ?thesis
    using message message_member caption caption_member reply reply_member name
      name_member mime mime_member message_main media_main message_session media_session
    by blast
qed

text \<open>
  The theorem of claim C10 at work: \<open>--reply-to ""\<close> yields the payload of three members.
\<close>

theorem empty_option_is_omitted_witness:
  "send_message_payload
     \<lparr>session = ''default'', chat_id = ''1@c.us'', reply_to = Some '''', message = ''hi''\<rparr>
     = [(''chatId'', JStr ''1@c.us''), (''text'', JStr ''hi''), (''session'', JStr ''default'')]"
  using
    empty_option_is_omitted [where args =
      "\<lparr>session = ''default'', chat_id = ''1@c.us'', reply_to = None, message = ''hi''\<rparr>"]
  by (simp add: send_message_payload_def set_if_truthy_def)

text \<open>
  Not every optional string argument is omitted when it is empty: \<open>--session ""\<close> puts
  \<open>"session": ""\<close> into the payload of \<open>send_message\<close> and of \<open>send_media\<close>, which is not the
  payload of a command line without the option, where the member is \<open>"default"\<close>.
\<close>

theorem empty_session_is_sent_counterexample:
  "send_message_payload
     \<lparr>session = '''', chat_id = ''1@c.us'', reply_to = None, message = ''hi''\<rparr>
     = [(''chatId'', JStr ''1@c.us''), (''text'', JStr ''hi''), (''session'', JStr '''')]
   \<and> flag_default send_message_parser ''--session'' = Some (JStr ''default'')
   \<and> send_message_payload
     \<lparr>session = ''default'', chat_id = ''1@c.us'', reply_to = None, message = ''hi''\<rparr>
     = [(''chatId'', JStr ''1@c.us''), (''text'', JStr ''hi''), (''session'', JStr ''default'')]
   \<and> send_media_payload
     \<lparr>session = '''', chat_id = ''1@c.us'', reply_to = None, media_type = Image,
      url = ''http://h/a.png'', caption = None, filename = None, mimetype = None\<rparr>
     = [(''chatId'', JStr ''1@c.us''), (''file'', JDict [(''url'', JStr ''http://h/a.png'')]),
        (''session'', JStr '''')]
   \<and> flag_default send_media_parser ''--session'' = Some (JStr ''default'')
   \<and> send_media_payload
     \<lparr>session = ''default'', chat_id = ''1@c.us'', reply_to = None, media_type = Image,
      url = ''http://h/a.png'', caption = None, filename = None, mimetype = None\<rparr>
     = [(''chatId'', JStr ''1@c.us''), (''file'', JDict [(''url'', JStr ''http://h/a.png'')]),
        (''session'', JStr ''default'')]"
  by (simp add: send_message_payload_def send_media_payload_def send_media_file_obj_def
        set_if_truthy_def flag_default_def find_flag_def send_message_parser_def
        send_media_parser_def optional_def positional_def)

section \<open>Output of the commands: auxiliary facts\<close>

lemma print_eq: "print s w = (Inr (), w\<lparr>stdout := stdout w @ [s]\<rparr>)"
  by (simp add: print_def)

lemma count_line_map: "count_line (map f xs) noun = count_line xs noun"
  by (simp add: count_line_def)

text \<open>A listing whose loop prints the lines of each dict and fails on anything else.\<close>

lemma listing:
  assumes "\<And>d w. body (JDict d) w = (Inr (), w\<lparr>stdout := stdout w @ lines d\<rparr>)"
    and "\<And>x w. \<not> is_dict x \<Longrightarrow> body x w = (Inl AttributeError, w)"
  shows "seq (for_each body xs) (\<lambda>_. print (count_line ys noun)) w =
           (if list_all is_dict xs then Inr () else Inl AttributeError,
            w\<lparr>stdout := stdout w @ concat (map lines (leading_dicts xs))
                 @ (if list_all is_dict xs then [count_line ys noun] else [])\<rparr>)"
  by (simp add: seq_def for_each_dicts [of body lines, OF assms] print_eq)

lemma one_line_item:
  "seq (get_of (JDict d)) (\<lambda>d. print (line d)) w = (Inr (), w\<lparr>stdout := stdout w @ [line d]\<rparr>)"
  "\<not> is_dict x \<Longrightarrow> seq (get_of x) k w = (Inl AttributeError, w)"
  by (simp_all add: seq_def get_of_dict get_of_other print_eq)

lemma list_messages_item_dict:
  "list_messages_item (JDict d) w =
     (Inr (), w\<lparr>stdout := stdout w @ [message_line d, message_id_line d]\<rparr>)"
  by (simp add: list_messages_item_def seq_def get_of_dict print_eq)

lemma list_messages_item_other:
  "\<not> is_dict x \<Longrightarrow> list_messages_item x w = (Inl AttributeError, w)"
  by (simp add: list_messages_item_def one_line_item(2))

lemma list_messages_checked:
  assumes "status_code
             (srv \<lparr>via = client cfg, verb = ''GET'',
                   target = ''/api/'' @ s @ ''/chats/'' @ chat @ ''/messages'',
                   params = Some [(''limit'', JInt l), (''offset'', JInt off),
                                  (''downloadMedia'', JStr (if dm then ''true'' else ''false'')),
                                  (''sortBy'', JStr ''timestamp''),
                                  (''sortOrder'', JStr ''desc'')],
                   json_payload = None\<rparr>) < 400"
    and "json_body
             (srv \<lparr>via = client cfg, verb = ''GET'',
                   target = ''/api/'' @ s @ ''/chats/'' @ chat @ ''/messages'',
                   params = Some [(''limit'', JInt l), (''offset'', JInt off),
                                  (''downloadMedia'', JStr (if dm then ''true'' else ''false'')),
                                  (''sortBy'', JStr ''timestamp''),
                                  (''sortOrder'', JStr ''desc'')],
                   json_payload = None\<rparr>) = Some (JList items)"
  shows "list_messages srv cfg s chat l off dm w =
           (if list_all is_dict items then Inr () else Inl AttributeError,
            w\<lparr>requests := requests w @
                 [\<lparr>via = client cfg, verb = ''GET'',
                   target = ''/api/'' @ s @ ''/chats/'' @ chat @ ''/messages'',
                   params = Some [(''limit'', JInt l), (''offset'', JInt off),
                                  (''downloadMedia'', JStr (if dm then ''true'' else ''false'')),
                                  (''sortBy'', JStr ''timestamp''),
                                  (''sortOrder'', JStr ''desc'')],
                   json_payload = None\<rparr>],
              stdout := stdout w
                 @ concat (map (\<lambda>m. [message_line m, message_id_line m])
                             (leading_dicts (rev items)))
                 @ (if list_all is_dict items then [count_line items ''messages''] else [])\<rparr>)"
  unfolding list_messages_def
  by (subst seq_Inr [OF get_checked [where srv = srv, OF assms]])
    (simp add: listing [of list_messages_item "\<lambda>m. [message_line m, message_id_line m]",
        OF list_messages_item_dict list_messages_item_other])

lemma list_overview_item_dict:
  "list_overview_item (JDict d) w =
     (case overview_body d of
        Inl e \<Rightarrow> (Inl e, w)
      | Inr b \<Rightarrow>
          (Inr (),
           w\<lparr>stdout := stdout w
                @ chat_line d # (if truthy b then [''    -> '' @ py_str b] else [])\<rparr>))"
  by (simp add: list_overview_item_def seq_def get_of_dict raise_or_return_def print_eq
        split: sum.splits)

lemma for_each_overview:
  "map overview_body ds = map Inr bodies \<Longrightarrow>
   for_each list_overview_item (map JDict ds) w =
     (Inr (),
      w\<lparr>stdout := stdout w
           @ concat (map2 (\<lambda>d b. chat_line d # (if truthy b then [''    -> '' @ py_str b] else []))
                       ds bodies)\<rparr>)"
proof (induction ds arbitrary: bodies w)
  case Nil
  then show ?case by simp
next
  case (Cons d ds)
  then obtain b bs where bodies: "bodies = b # bs" "overview_body d = Inr b"
    "map overview_body ds = map Inr bs"
    by (cases bodies) auto
  show ?case
    by (simp add: bodies list_overview_item_dict Cons.IH [OF bodies(3)])
qed

lemma get_answered:
  assumes "status_code resp < 400" and "json_body resp = Some j"
  shows "\<exists>w'. seq (http_get (\<lambda>_. resp) c t ps) check w = (Inr j, w') \<and> stdout w' = stdout w"
  using assms by (simp add: seq_def http_get_def send_def check_ok)

lemma listing_answered:
  assumes "status_code resp < 400" and "json_body resp = Some (JList (map JDict ds))"
    and "\<And>d w. body (JDict d) w = (Inr (), w\<lparr>stdout := stdout w @ lines d\<rparr>)"
    and "\<And>x w. \<not> is_dict x \<Longrightarrow> body x w = (Inl AttributeError, w)"
  shows "fst (seq (seq (http_get (\<lambda>_. resp) c t ps) check)
                (\<lambda>data. case data of
                   JList items \<Rightarrow>
                     seq (for_each body items) (\<lambda>_. print (count_line items noun))
                 | _ \<Rightarrow> pp data) w) = Inr ()
         \<and> stdout (snd (seq (seq (http_get (\<lambda>_. resp) c t ps) check)
                (\<lambda>data. case data of
                   JList items \<Rightarrow>
                     seq (for_each body items) (\<lambda>_. print (count_line items noun))
                 | _ \<Rightarrow> pp data) w)) =
             stdout w @ concat (map lines ds) @ [count_line ds noun]"
proof -
  obtain w' where w': "seq (http_get (\<lambda>_. resp) c t ps) check w = (Inr (JList (map JDict ds)), w')"
    "stdout w' = stdout w"
    using get_answered [OF assms(1,2)] by blast
  show ?thesis
    by (simp add: seq_Inr [where m = "seq (http_get (\<lambda>_. resp) c t ps) check", OF w'(1)]
          listing [of body lines, OF assms(3,4)] w'(2) count_line_map)
qed

lemma concat_singletons: "concat (map (\<lambda>d. [f d]) ds) = map f ds"
  by (induction ds) simp_all

lemma groups_list_lines:
  assumes "status_code resp < 400" and "json_body resp = Some (JList (map JDict ds))"
  shows "fst (groups_main \<lparr>session = s, command = Groups_list\<rparr> (\<lambda>_. resp) cfg w) = Inr ()
         \<and> stdout (snd (groups_main \<lparr>session = s, command = Groups_list\<rparr> (\<lambda>_. resp) cfg w)) =
             stdout w @ map groups_list_line ds @ [count_line ds ''groups'']"
  using listing_answered [OF assms, of groups_list_item "\<lambda>d. [groups_list_line d]"]
  by (simp add: groups_main_def groups_list_item_def one_line_item concat_singletons)

lemma groups_participants_lines:
  assumes "status_code resp < 400" and "json_body resp = Some (JList (map JDict ds))"
  shows "fst (groups_main \<lparr>session = s, command = Groups_participants g\<rparr> (\<lambda>_. resp) cfg w)
           = Inr ()
         \<and> stdout (snd (groups_main \<lparr>session = s, command = Groups_participants g\<rparr>
                           (\<lambda>_. resp) cfg w)) =
             stdout w @ map groups_participants_line ds @ [count_line ds ''participants'']"
  using listing_answered [OF assms, of groups_participants_item
      "\<lambda>d. [groups_participants_line d]"]
  by (simp add: groups_main_def groups_participants_item_def one_line_item concat_singletons)

lemma contacts_list_lines:
  assumes "status_code resp < 400" and "json_body resp = Some (JList (map JDict ds))"
  shows "fst (contacts_main \<lparr>session = s, command = Contacts_list\<rparr> (\<lambda>_. resp) cfg w) = Inr ()
         \<and> stdout (snd (contacts_main \<lparr>session = s, command = Contacts_list\<rparr>
                           (\<lambda>_. resp) cfg w)) =
             stdout w @ map contacts_list_line ds @ [count_line ds ''contacts'']"
  using listing_answered [OF assms, of contacts_list_item "\<lambda>d. [contacts_list_line d]"]
  by (simp add: contacts_main_def contacts_list_item_def one_line_item concat_singletons)

lemma session_list_lines:
  assumes "status_code resp < 400" and "json_body resp = Some (JList (map JDict ds))"
  shows "fst (session_main Session_list (\<lambda>_. resp) cfg w) = Inr ()
         \<and> stdout (snd (session_main Session_list (\<lambda>_. resp) cfg w)) =
             stdout w @ map session_list_line ds @ [count_line ds ''sessions'']"
  using listing_answered [OF assms, of session_list_item "\<lambda>d. [session_list_line d]"]
  by (simp add: session_main_def session_list_item_def one_line_item concat_singletons)

lemma list_chats_lines:
  assumes "status_code resp < 400" and "json_body resp = Some (JList (map JDict ds))"
  shows "fst (list_chats (\<lambda>_. resp) cfg s l off w) = Inr ()
         \<and> stdout (snd (list_chats (\<lambda>_. resp) cfg s l off w)) =
             stdout w @ map chat_line ds @ [count_line ds ''chats'']"
  using listing_answered [OF assms, of list_chats_item "\<lambda>d. [chat_line d]"]
  by (simp add: list_chats_def list_chats_item_def one_line_item concat_singletons)

lemma list_messages_lines:
  assumes "status_code resp < 400" and "json_body resp = Some (JList (map JDict ds))"
  shows "fst (list_messages (\<lambda>_. resp) cfg s chat l off dm w) = Inr ()
         \<and> stdout (snd (list_messages (\<lambda>_. resp) cfg s chat l off dm w)) =
             stdout w @ concat (map (\<lambda>m. [message_line m, message_id_line m]) (rev ds))
             @ [count_line ds ''messages'']"
  by (simp add: list_messages_checked [where srv = "\<lambda>_. resp"] assms rev_map count_line_map)

lemma overview_answered:
  assumes "status_code resp < 400" and "json_body resp = Some (JList (map JDict ds))"
    and "map overview_body ds = map Inr bodies"
  shows "fst (seq (seq (http_get (\<lambda>_. resp) c t ps) check)
                (\<lambda>data. case data of
                   JList items \<Rightarrow>
                     seq (for_each list_overview_item items)
                       (\<lambda>_. print (count_line items noun))
                 | _ \<Rightarrow> pp data) w) = Inr ()
         \<and> stdout (snd (seq (seq (http_get (\<lambda>_. resp) c t ps) check)
                (\<lambda>data. case data of
                   JList items \<Rightarrow>
                     seq (for_each list_overview_item items)
                       (\<lambda>_. print (count_line items noun))
                 | _ \<Rightarrow> pp data) w)) =
             stdout w
             @ concat (map2 (\<lambda>d b. chat_line d # (if truthy b then [''    -> '' @ py_str b] else []))
                         ds bodies)
             @ [count_line ds noun]"
proof -
  obtain w' where w': "seq (http_get (\<lambda>_. resp) c t ps) check w = (Inr (JList (map JDict ds)), w')"
    "stdout w' = stdout w"
    using get_answered [OF assms(1,2)] by blast
  have loop: "seq (for_each list_overview_item (map JDict ds))
                (\<lambda>_. print (count_line (map JDict ds) noun)) w' =
              (Inr (),
               w'\<lparr>stdout := stdout w'
                    @ concat (map2 (\<lambda>d b. chat_line d
                                      # (if truthy b then [''    -> '' @ py_str b] else []))
                                ds bodies)
                    @ [count_line ds noun]\<rparr>)"
    by (simp add: seq_def for_each_overview [OF assms(3)] print_eq count_line_map)
  show ?thesis
    by (simp add: seq_Inr [where m = "seq (http_get (\<lambda>_. resp) c t ps) check", OF w'(1)]
          loop w'(2))
qed

lemma list_overview_lines:
  assumes "status_code resp < 400" and "json_body resp = Some (JList (map JDict ds))"
    and "map overview_body ds = map Inr bodies"
  shows "fst (list_overview (\<lambda>_. resp) cfg s l off w) = Inr ()
         \<and> stdout (snd (list_overview (\<lambda>_. resp) cfg s l off w)) =
             stdout w
             @ concat (map2 (\<lambda>d b. chat_line d # (if truthy b then [''    -> '' @ py_str b] else []))
                         ds bodies)
             @ [count_line ds ''chats'']"
  using overview_answered [OF assms] by (simp add: list_overview_def)

section \<open>Properties of the contacts check\<close>

lemma contacts_check_report_dict:
  "contacts_check_report phone (JDict d) w =
     (Inr (),
      w\<lparr>stdout := stdout w @
         [json_dumps (JDict d),
          ''\<newline>  Number '' @ phone @ '' ''
          @ (if truthy (dict_get d ''numberExists'' JNull) \<or> truthy (dict_get d ''chatId'' JNull)
             then ''exists'' else ''NOT found'')
          @ '' on WhatsApp'']\<rparr>)"
  by (simp add: contacts_check_report_def seq_def pp_def print_eq py_or_def Let_def)

lemma contacts_check_report_other:
  "\<not> is_dict data \<Longrightarrow>
   contacts_check_report phone data w = (Inr (), w\<lparr>stdout := stdout w @ [json_dumps data]\<rparr>)"
  by (cases data) (simp_all add: contacts_check_report_def seq_def pp_def print_eq)

text \<open>
  Claim C7. When the gateway answers the request of \<open>contacts check <phone>\<close> with a
  success whose body is a JSON object, the command prints the dump of the object and then
  one more line: \<open>Number <phone> exists on WhatsApp\<close> when the member \<open>numberExists\<close> or
  the member \<open>chatId\<close> of the object is truthy, and \<open>Number <phone> NOT found on WhatsApp\<close>
  otherwise (a missing member counts as \<open>None\<close>). The line starts with a newline and two
  spaces.
\<close>

theorem contacts_check_sentence:
  assumes "command args = Contacts_check phone"
    and "status_code
           (srv \<lparr>via = client cfg, verb = ''GET'', target = ''/api/contacts/check-exists'',
                 params = Some [(''session'', JStr (session args)), (''phone'', JStr phone)],
                 json_payload = None\<rparr>) < 400"
    and "json_body
           (srv \<lparr>via = client cfg, verb = ''GET'', target = ''/api/contacts/check-exists'',
                 params = Some [(''session'', JStr (session args)), (''phone'', JStr phone)],
                 json_payload = None\<rparr>) = Some (JDict d)"
  shows "fst (contacts_main args srv cfg w) = Inr ()
         \<and> stdout (snd (contacts_main args srv cfg w)) =
             stdout w @
               [json_dumps (JDict d),
                ''\<newline>  '' @ ''Number '' @ phone @ '' ''
                @ (if truthy (dict_get d ''numberExists'' JNull)
                      \<or> truthy (dict_get d ''chatId'' JNull)
                   then ''exists'' else ''NOT found'')
                @ '' on WhatsApp'']"
  unfolding contacts_main_def Let_def assms(1) contacts_command.case
  by (subst seq_Inr [OF get_checked [where srv = srv, OF assms(2,3)]],
      simp add: contacts_check_report_dict)+

text \<open>
  The theorem at work: an object with a truthy \<open>chatId\<close>, and one whose \<open>numberExists\<close>
  is false.
\<close>

theorem contacts_check_sentence_witness:
  "stdout (snd (contacts_main \<lparr>session = ''default'', command = Contacts_check ''6281''\<rparr>
      (\<lambda>_. \<lparr>status_code = 200,
             json_body = Some (JDict [(''numberExists'', JBool False),
                                     (''chatId'', JStr ''6281@c.us'')]),
             text_body = ''''\<rparr>)
      \<lparr>BASE_URL = ''http://h'', API_KEY = ''k''\<rparr>
      \<lparr>stdout = [], stderr = [], requests = []\<rparr>))
     = [json_dumps (JDict [(''numberExists'', JBool False), (''chatId'', JStr ''6281@c.us'')]),
        ''\<newline>  Number 6281 exists on WhatsApp'']
   \<and> stdout (snd (contacts_main \<lparr>session = ''default'', command = Contacts_check ''6281''\<rparr>
      (\<lambda>_. \<lparr>status_code = 200,
             json_body = Some (JDict [(''numberExists'', JBool False)]),
             text_body = ''''\<rparr>)
      \<lparr>BASE_URL = ''http://h'', API_KEY = ''k''\<rparr>
      \<lparr>stdout = [], stderr = [], requests = []\<rparr>))
     = [json_dumps (JDict [(''numberExists'', JBool False)]),
        ''\<newline>  Number 6281 NOT found on WhatsApp'']"
  using
    contacts_check_sentence [where args = "\<lparr>session = ''default'', command = Contacts_check ''6281''\<rparr>"
      and phone = "''6281''"
      and srv = "\<lambda>_. \<lparr>status_code = 200,
             json_body = Some (JDict [(''numberExists'', JBool False),
                                     (''chatId'', JStr ''6281@c.us'')]),
             text_body = ''''\<rparr>"
      and d = "[(''numberExists'', JBool False), (''chatId'', JStr ''6281@c.us'')]"
      and cfg = "\<lparr>BASE_URL = ''http://h'', API_KEY = ''k''\<rparr>"
      and w = "\<lparr>stdout = [], stderr = [], requests = []\<rparr>"]
    contacts_check_sentence [where args = "\<lparr>session = ''default'', command = Contacts_check ''6281''\<rparr>"
      and phone = "''6281''"
      and srv = "\<lambda>_. \<lparr>status_code = 200,
             json_body = Some (JDict [(''numberExists'', JBool False)]),
             text_body = ''''\<rparr>"
      and d = "[(''numberExists'', JBool False)]"
      and cfg = "\<lparr>BASE_URL = ''http://h'', API_KEY = ''k''\<rparr>"
      and w = "\<lparr>stdout = [], stderr = [], requests = []\<rparr>"]
  by (simp add: dict_get_def)

text \<open>
  Claim C9. When the body of the success is no JSON object (a list, a string, a number,
  a truth value or \<open>null\<close>), the command prints the dump and nothing else.
\<close>

theorem contacts_check_no_sentence:
  assumes "command args = Contacts_check phone"
    and "status_code
           (srv \<lparr>via = client cfg, verb = ''GET'', target = ''/api/contacts/check-exists'',
                 params = Some [(''session'', JStr (session args)), (''phone'', JStr phone)],
                 json_payload = None\<rparr>) < 400"
    and "json_body
           (srv \<lparr>via = client cfg, verb = ''GET'', target = ''/api/contacts/check-exists'',
                 params = Some [(''session'', JStr (session args)), (''phone'', JStr phone)],
                 json_payload = None\<rparr>) = Some data"
    and "\<not> is_dict data"
  shows "fst (contacts_main args srv cfg w) = Inr ()
         \<and> stdout (snd (contacts_main args srv cfg w)) = stdout w @ [json_dumps data]"
  unfolding contacts_main_def Let_def assms(1) contacts_command.case
  by (subst seq_Inr [OF get_checked [where srv = srv, OF assms(2,3)]],
      simp add: contacts_check_report_other [OF assms(4)])+

text \<open>The theorem at work on an empty list as the body.\<close>

theorem contacts_check_no_sentence_witness:
  "stdout (snd (contacts_main \<lparr>session = ''default'', command = Contacts_check ''6281''\<rparr>
      (\<lambda>_. \<lparr>status_code = 200, json_body = Some (JList []), text_body = ''[]''\<rparr>)
      \<lparr>BASE_URL = ''http://h'', API_KEY = ''k''\<rparr>
      \<lparr>stdout = [], stderr = [], requests = []\<rparr>))
     = [''[]'']"
  using
    contacts_check_no_sentence [where args = "\<lparr>session = ''default'', command = Contacts_check ''6281''\<rparr>"
      and phone = "''6281''"
      and srv = "\<lambda>_. \<lparr>status_code = 200, json_body = Some (JList []), text_body = ''[]''\<rparr>"
      and data = "JList []"
      and cfg = "\<lparr>BASE_URL = ''http://h'', API_KEY = ''k''\<rparr>"
      and w = "\<lparr>stdout = [], stderr = [], requests = []\<rparr>"]
  by (simp add: json_dumps_def)

section \<open>Properties of the listings\<close>

text \<open>
  Claim C8. When the gateway answers the request of \<open>list_chats messages <chat_id>\<close> with
  a success whose body is a list, the command prints the two lines of each message in the
  reverse of the order of the list, up to the first item (from the end) that is no JSON
  object, where the loop raises \<open>AttributeError\<close>; when all items are objects, every
  message is printed, last item first, and the count line follows.
\<close>

theorem messages_printed_in_reverse:
  assumes "command args = Messages chat"
    and "status_code
           (srv \<lparr>via = client cfg, verb = ''GET'',
                 target = ''/api/'' @ session args @ ''/chats/'' @ chat @ ''/messages'',
                 params = Some [(''limit'', JInt (limit args)), (''offset'', JInt (offset args)),
                                (''downloadMedia'',
                                 JStr (if download_media args then ''true'' else ''false'')),
                                (''sortBy'', JStr ''timestamp''),
                                (''sortOrder'', JStr ''desc'')],
                 json_payload = None\<rparr>) < 400"
    and "json_body
           (srv \<lparr>via = client cfg, verb = ''GET'',
                 target = ''/api/'' @ session args @ ''/chats/'' @ chat @ ''/messages'',
                 params = Some [(''limit'', JInt (limit args)), (''offset'', JInt (offset args)),
                                (''downloadMedia'',
                                 JStr (if download_media args then ''true'' else ''false'')),
                                (''sortBy'', JStr ''timestamp''),
                                (''sortOrder'', JStr ''desc'')],
                 json_payload = None\<rparr>) = Some (JList items)"
  shows "stdout (snd (list_chats_main args srv cfg w)) =
           stdout w
           @ concat (map (\<lambda>m. [message_line m, message_id_line m]) (leading_dicts (rev items)))
           @ (if list_all is_dict items then [count_line items ''messages''] else [])
         \<and> fst (list_chats_main args srv cfg w) =
             (if list_all is_dict items then Inr () else Inl AttributeError)
         \<and> (items = map JDict ms \<longrightarrow>
              stdout (snd (list_chats_main args srv cfg w)) =
                stdout w
                @ concat (rev (map (\<lambda>m. [message_line m, message_id_line m]) ms))
                @ [count_line items ''messages''])"
proof -
  have run: "list_chats_main args srv cfg w =
               list_messages srv cfg (session args) chat (limit args) (offset args)
                 (download_media args) w"
    by (simp add: list_chats_main_def assms(1))
  show ?thesis
    unfolding run list_messages_checked [where srv = srv, OF assms(2,3)]
    by (simp add: rev_map)
qed

text \<open>
  The theorem at work on a page of two messages sorted newest first: the older message
  is printed first and the newer one second.
\<close>

theorem messages_printed_in_reverse_witness:
  "stdout (snd (list_chats_main
      \<lparr>session = ''default'', command = Messages ''1@c.us'', limit = 20, offset = 0,
       download_media = False\<rparr>
      (\<lambda>_. \<lparr>status_code = 200,
             json_body = Some (JList
               [JDict [(''id'', JStr ''m2''), (''timestamp'', JInt 200), (''fromMe'', JBool True),
                       (''body'', JStr ''newer'')],
                JDict [(''id'', JStr ''m1''), (''timestamp'', JInt 100),
                       (''from'', JStr ''1@c.us''), (''body'', JStr ''older''),
                       (''hasMedia'', JBool True)]]),
             text_body = ''''\<rparr>)
      \<lparr>BASE_URL = ''http://h'', API_KEY = ''k''\<rparr>
      \<lparr>stdout = [], stderr = [], requests = []\<rparr>))
     = [''  [100] 1@c.us: older [media]'', ''           id: m1'',
        ''  [200] me: newer'', ''           id: m2'',
        ''\<newline>(2 messages)'']"
proof -
  have lines:
    "message_line [(''id'', JStr ''m2''), (''timestamp'', JInt 200), (''fromMe'', JBool True),
                   (''body'', JStr ''newer'')] = ''  [200] me: newer''"
    "message_id_line [(''id'', JStr ''m2''), (''timestamp'', JInt 200), (''fromMe'', JBool True),
                   (''body'', JStr ''newer'')] = ''           id: m2''"
    "message_line [(''id'', JStr ''m1''), (''timestamp'', JInt 100),
                   (''from'', JStr ''1@c.us''), (''body'', JStr ''older''),
                   (''hasMedia'', JBool True)] = ''  [100] 1@c.us: older [media]''"
    "message_id_line [(''id'', JStr ''m1''), (''timestamp'', JInt 100),
                   (''from'', JStr ''1@c.us''), (''body'', JStr ''older''),
                   (''hasMedia'', JBool True)] = ''           id: m1''"
    "count_line [JDict [(''id'', JStr ''m2''), (''timestamp'', JInt 200), (''fromMe'', JBool True),
                       (''body'', JStr ''newer'')],
                JDict [(''id'', JStr ''m1''), (''timestamp'', JInt 100),
                       (''from'', JStr ''1@c.us''), (''body'', JStr ''older''),
                       (''hasMedia'', JBool True)]] ''messages'' = ''\<newline>(2 messages)''"
    by code_simp+
  show ?thesis
    using messages_printed_in_reverse [where
        args = "\<lparr>session = ''default'', command = Messages ''1@c.us'', limit = 20, offset = 0,
                 download_media = False\<rparr>"
        and chat = "''1@c.us''"
        and srv = "\<lambda>_. \<lparr>status_code = 200,
             json_body = Some (JList
               [JDict [(''id'', JStr ''m2''), (''timestamp'', JInt 200), (''fromMe'', JBool True),
                       (''body'', JStr ''newer'')],
                JDict [(''id'', JStr ''m1''), (''timestamp'', JInt 100),
                       (''from'', JStr ''1@c.us''), (''body'', JStr ''older''),
                       (''hasMedia'', JBool True)]]),
             text_body = ''''\<rparr>"
        and items = "[JDict [(''id'', JStr ''m2''), (''timestamp'', JInt 200), (''fromMe'', JBool True),
                       (''body'', JStr ''newer'')],
                JDict [(''id'', JStr ''m1''), (''timestamp'', JInt 100),
                       (''from'', JStr ''1@c.us''), (''body'', JStr ''older''),
                       (''hasMedia'', JBool True)]]"
        and ms = "[[(''id'', JStr ''m2''), (''timestamp'', JInt 200), (''fromMe'', JBool True),
                       (''body'', JStr ''newer'')],
                [(''id'', JStr ''m1''), (''timestamp'', JInt 100),
                       (''from'', JStr ''1@c.us''), (''body'', JStr ''older''),
                       (''hasMedia'', JBool True)]]"
        and cfg = "\<lparr>BASE_URL = ''http://h'', API_KEY = ''k''\<rparr>"
        and w = "\<lparr>stdout = [], stderr = [], requests = []\<rparr>"]
      lines
    by simp
qed

text \<open>
  Claim C3, as the code has it. Let the gateway answer with a success whose body is a
  list of \<open>N\<close> JSON objects. What is stated is the sequence of \<open>print\<close> calls, each of which
  writes its text and a newline. Then \<open>groups list\<close>, \<open>groups participants\<close>,
  \<open>contacts list\<close>, \<open>session list\<close> and \<open>list_chats chats\<close> return normally after exactly
  \<open>N\<close> summary prints, one per item in the order of the list, and one count print
  \<open>(N <noun>)\<close>, whose text starts with a newline. \<open>list_chats messages\<close> makes two prints
  per item (the message and its id), last item first, and then the count print.
  \<open>list_chats overview\<close>, provided that the \<open>body\<close> of every item can be computed without
  an exception (\<open>overview_body\<close> yields the list \<open>bodies\<close>), prints the line of each item,
  followed by a preview when that \<open>body\<close> is truthy, and then the count print.
\<close>

theorem listings_print_lines_then_count:
  assumes "status_code resp < 400" and "json_body resp = Some (JList (map JDict ds))"
  shows
    "(fst (groups_main \<lparr>session = s, command = Groups_list\<rparr> (\<lambda>_. resp) cfg w) = Inr ()
      \<and> stdout (snd (groups_main \<lparr>session = s, command = Groups_list\<rparr> (\<lambda>_. resp) cfg w)) =
          stdout w @ map groups_list_line ds @ [count_line ds ''groups''])
     \<and> (fst (groups_main \<lparr>session = s, command = Groups_participants g\<rparr> (\<lambda>_. resp) cfg w)
          = Inr ()
      \<and> stdout (snd (groups_main \<lparr>session = s, command = Groups_participants g\<rparr>
                        (\<lambda>_. resp) cfg w)) =
          stdout w @ map groups_participants_line ds @ [count_line ds ''participants''])
     \<and> (fst (contacts_main \<lparr>session = s, command = Contacts_list\<rparr> (\<lambda>_. resp) cfg w) = Inr ()
      \<and> stdout (snd (contacts_main \<lparr>session = s, command = Contacts_list\<rparr>
                        (\<lambda>_. resp) cfg w)) =
          stdout w @ map contacts_list_line ds @ [count_line ds ''contacts''])
     \<and> (fst (session_main Session_list (\<lambda>_. resp) cfg w) = Inr ()
      \<and> stdout (snd (session_main Session_list (\<lambda>_. resp) cfg w)) =
          stdout w @ map session_list_line ds @ [count_line ds ''sessions''])
     \<and> (fst (list_chats_main
               \<lparr>session = s, command = Chats, limit = l, offset = off, download_media = dm\<rparr>
               (\<lambda>_. resp) cfg w) = Inr ()
      \<and> stdout (snd (list_chats_main
               \<lparr>session = s, command = Chats, limit = l, offset = off, download_media = dm\<rparr>
               (\<lambda>_. resp) cfg w)) =
          stdout w @ map chat_line ds @ [count_line ds ''chats''])
     \<and> (fst (list_chats_main
               \<lparr>session = s, command = Messages chat, limit = l, offset = off,
                download_media = dm\<rparr>
               (\<lambda>_. resp) cfg w) = Inr ()
      \<and> stdout (snd (list_chats_main
               \<lparr>session = s, command = Messages chat, limit = l, offset = off,
                download_media = dm\<rparr>
               (\<lambda>_. resp) cfg w)) =
          stdout w @ concat (map (\<lambda>m. [message_line m, message_id_line m]) (rev ds))
          @ [count_line ds ''messages''])
     \<and> (map overview_body ds = map Inr bodies \<longrightarrow>
          fst (list_chats_main
               \<lparr>session = s, command = Overview, limit = l, offset = off, download_media = dm\<rparr>
               (\<lambda>_. resp) cfg w) = Inr ()
          \<and> stdout (snd (list_chats_main
               \<lparr>session = s, command = Overview, limit = l, offset = off,
                download_media = dm\<rparr>
               (\<lambda>_. resp) cfg w)) =
              stdout w
              @ concat (map2 (\<lambda>d b. chat_line d
                                # (if truthy b then [''    -> '' @ py_str b] else []))
                          ds bodies)
              @ [count_line ds ''chats''])"
proof -
  have chats: "list_chats_main
                 \<lparr>session = s, command = Chats, limit = l, offset = off, download_media = dm\<rparr>
                 (\<lambda>_. resp) cfg w = list_chats (\<lambda>_. resp) cfg s l off w"
    by (simp add: list_chats_main_def)
  have messages: "list_chats_main
                    \<lparr>session = s, command = Messages chat, limit = l, offset = off,
                     download_media = dm\<rparr>
                    (\<lambda>_. resp) cfg w = list_messages (\<lambda>_. resp) cfg s chat l off dm w"
    by (simp add: list_chats_main_def)
  have overview: "list_chats_main
                    \<lparr>session = s, command = Overview, limit = l, offset = off,
                     download_media = dm\<rparr>
                    (\<lambda>_. resp) cfg w = list_overview (\<lambda>_. resp) cfg s l off w"
    by (simp add: list_chats_main_def)
  show ?thesis
    unfolding chats messages overview
    using groups_list_lines [OF assms, where s = s and cfg = cfg and w = w]
      groups_participants_lines [OF assms, where s = s and g = g and cfg = cfg and w = w]
      contacts_list_lines [OF assms, where s = s and cfg = cfg and w = w]
      session_list_lines [OF assms, where cfg = cfg and w = w]
      list_chats_lines [OF assms, where s = s and l = l and off = off and cfg = cfg and w = w]
      list_messages_lines [OF assms, where s = s and chat = chat and l = l and off = off
        and dm = dm and cfg = cfg and w = w]
      list_overview_lines [OF assms, where s = s and l = l and off = off and cfg = cfg
        and w = w and bodies = bodies]
    by blast
qed

text \<open>
  The theorem at work on a list of two objects, for \<open>groups list\<close>, \<open>list_chats messages\<close>
  and \<open>list_chats overview\<close>.
\<close>

theorem listings_print_lines_then_count_witness:
  "stdout (snd (groups_main \<lparr>session = ''default'', command = Groups_list\<rparr>
      (\<lambda>_. \<lparr>status_code = 200,
             json_body = Some (JList (map JDict
               [[(''id'', JStr ''1@c.us''), (''name'', JStr ''Ann''),
                 (''lastMessage'', JDict [(''body'', JStr ''hello'')])],
                [(''id'', JStr ''2@c.us'')]])),
             text_body = ''''\<rparr>)
      \<lparr>BASE_URL = ''http://h'', API_KEY = ''k''\<rparr>
      \<lparr>stdout = [], stderr = [], requests = []\<rparr>))
     = [''  1@c.us  Ann (? members)'', ''  2@c.us   (? members)'', ''\<newline>(2 groups)'']
   \<and> stdout (snd (list_chats_main
      \<lparr>session = ''default'', command = Messages ''c'', limit = 20, offset = 0,
       download_media = False\<rparr>
      (\<lambda>_. \<lparr>status_code = 200,
             json_body = Some (JList (map JDict
               [[(''id'', JStr ''1@c.us''), (''name'', JStr ''Ann''),
                 (''lastMessage'', JDict [(''body'', JStr ''hello'')])],
                [(''id'', JStr ''2@c.us'')]])),
             text_body = ''''\<rparr>)
      \<lparr>BASE_URL = ''http://h'', API_KEY = ''k''\<rparr>
      \<lparr>stdout = [], stderr = [], requests = []\<rparr>))
     = [''  [] ?: '', ''           id: 2@c.us'', ''  [] ?: '', ''           id: 1@c.us'',
        ''\<newline>(2 messages)'']
   \<and> stdout (snd (list_chats_main
      \<lparr>session = ''default'', command = Overview, limit = 20, offset = 0,
       download_media = False\<rparr>
      (\<lambda>_. \<lparr>status_code = 200,
             json_body = Some (JList (map JDict
               [[(''id'', JStr ''1@c.us''), (''name'', JStr ''Ann''),
                 (''lastMessage'', JDict [(''body'', JStr ''hello'')])],
                [(''id'', JStr ''2@c.us'')]])),
             text_body = ''''\<rparr>)
      \<lparr>BASE_URL = ''http://h'', API_KEY = ''k''\<rparr>
      \<lparr>stdout = [], stderr = [], requests = []\<rparr>))
     = [''  1@c.us  Ann'', ''    -> hello'', ''  2@c.us  '', ''\<newline>(2 chats)'']"
proof -
  have status: "status_code \<lparr>status_code = 200,
             json_body = Some (JList (map JDict
               [[(''id'', JStr ''1@c.us''), (''name'', JStr ''Ann''),
                 (''lastMessage'', JDict [(''body'', JStr ''hello'')])],
                [(''id'', JStr ''2@c.us'')]])),
             text_body = ''''\<rparr> < 400"
    by simp
  have body: "json_body \<lparr>status_code = 200,
             json_body = Some (JList (map JDict
               [[(''id'', JStr ''1@c.us''), (''name'', JStr ''Ann''),
                 (''lastMessage'', JDict [(''body'', JStr ''hello'')])],
                [(''id'', JStr ''2@c.us'')]])),
             text_body = ''''\<rparr>
      = Some (JList (map JDict
               [[(''id'', JStr ''1@c.us''), (''name'', JStr ''Ann''),
                 (''lastMessage'', JDict [(''body'', JStr ''hello'')])],
                [(''id'', JStr ''2@c.us'')]]))"
    by simp
  have bodies: "map overview_body
               [[(''id'', JStr ''1@c.us''), (''name'', JStr ''Ann''),
                 (''lastMessage'', JDict [(''body'', JStr ''hello'')])],
                [(''id'', JStr ''2@c.us'')]]
      = map Inr [JStr ''hello'', JStr '''']"
    by code_simp
  have lines:
    "map groups_list_line
               [[(''id'', JStr ''1@c.us''), (''name'', JStr ''Ann''),
                 (''lastMessage'', JDict [(''body'', JStr ''hello'')])],
                [(''id'', JStr ''2@c.us'')]]
      = [''  1@c.us  Ann (? members)'', ''  2@c.us   (? members)'']"
    "map message_line
               [[(''id'', JStr ''1@c.us''), (''name'', JStr ''Ann''),
                 (''lastMessage'', JDict [(''body'', JStr ''hello'')])],
                [(''id'', JStr ''2@c.us'')]]
      = [''  [] ?: '', ''  [] ?: '']"
    "map message_id_line
               [[(''id'', JStr ''1@c.us''), (''name'', JStr ''Ann''),
                 (''lastMessage'', JDict [(''body'', JStr ''hello'')])],
                [(''id'', JStr ''2@c.us'')]]
      = [''           id: 1@c.us'', ''           id: 2@c.us'']"
    "map chat_line
               [[(''id'', JStr ''1@c.us''), (''name'', JStr ''Ann''),
                 (''lastMessage'', JDict [(''body'', JStr ''hello'')])],
                [(''id'', JStr ''2@c.us'')]]
      = [''  1@c.us  Ann'', ''  2@c.us  '']"
    by code_simp+
  have counts:
    "count_line [[(''id'', JStr ''1@c.us''), (''name'', JStr ''Ann''),
                 (''lastMessage'', JDict [(''body'', JStr ''hello'')])],
                [(''id'', JStr ''2@c.us'')]] ''groups'' = ''\<newline>(2 groups)''"
    "count_line [[(''id'', JStr ''1@c.us''), (''name'', JStr ''Ann''),
                 (''lastMessage'', JDict [(''body'', JStr ''hello'')])],
                [(''id'', JStr ''2@c.us'')]] ''messages'' = ''\<newline>(2 messages)''"
    "count_line [[(''id'', JStr ''1@c.us''), (''name'', JStr ''Ann''),
                 (''lastMessage'', JDict [(''body'', JStr ''hello'')])],
                [(''id'', JStr ''2@c.us'')]] ''chats'' = ''\<newline>(2 chats)''"
    by code_simp+
  show ?thesis
    using listings_print_lines_then_count [OF status body,
        where s = "''default''" and chat = "''c''" and l = 20 and off = 0 and dm = False
          and cfg = "\<lparr>BASE_URL = ''http://h'', API_KEY = ''k''\<rparr>"
          and w = "\<lparr>stdout = [], stderr = [], requests = []\<rparr>"
          and bodies = "[JStr ''hello'', JStr '''']"]
      bodies lines counts
    by (simp add: py_str_def)
qed

text \<open>
  Not every listing prints one line per item: for a list of one message \<open>list_chats
  messages\<close> prints two lines before the count line, and \<open>list_chats overview\<close> prints two
  for a chat whose last message has a body. An item that is no JSON object makes the
  loop raise \<open>AttributeError\<close>, so that no count line is printed. And in the overview an
  object whose last message has a number as its \<open>body\<close> makes \<open>[:80]\<close> raise \<open>TypeError\<close>
  before anything is printed. Last, a field with a line break in it makes the one print
  of its item two lines of output.
\<close>

theorem listings_line_count_counterexample:
  "stdout (snd (list_chats_main
      \<lparr>session = ''default'', command = Messages ''c'', limit = 20, offset = 0,
       download_media = False\<rparr>
      (\<lambda>_. \<lparr>status_code = 200,
             json_body = Some (JList [JDict [(''id'', JStr ''m1''), (''body'', JStr ''hi'')]]),
             text_body = ''''\<rparr>)
      \<lparr>BASE_URL = ''http://h'', API_KEY = ''k''\<rparr>
      \<lparr>stdout = [], stderr = [], requests = []\<rparr>))
     = [''  [] ?: hi'', ''           id: m1'', ''\<newline>(1 messages)'']
   \<and> stdout (snd (list_chats_main
      \<lparr>session = ''default'', command = Overview, limit = 20, offset = 0,
       download_media = False\<rparr>
      (\<lambda>_. \<lparr>status_code = 200,
             json_body = Some (JList [JDict [(''id'', JStr ''c1''),
                                            (''lastMessage'', JDict [(''body'', JStr ''hi'')])]]),
             text_body = ''''\<rparr>)
      \<lparr>BASE_URL = ''http://h'', API_KEY = ''k''\<rparr>
      \<lparr>stdout = [], stderr = [], requests = []\<rparr>))
     = [''  c1  '', ''    -> hi'', ''\<newline>(1 chats)'']
   \<and> fst (groups_main \<lparr>session = ''default'', command = Groups_list\<rparr>
      (\<lambda>_. \<lparr>status_code = 200, json_body = Some (JList [JInt 1]), text_body = ''[1]''\<rparr>)
      \<lparr>BASE_URL = ''http://h'', API_KEY = ''k''\<rparr>
      \<lparr>stdout = [], stderr = [], requests = []\<rparr>)
     = Inl AttributeError
   \<and> stdout (snd (groups_main \<lparr>session = ''default'', command = Groups_list\<rparr>
      (\<lambda>_. \<lparr>status_code = 200, json_body = Some (JList [JInt 1]), text_body = ''[1]''\<rparr>)
      \<lparr>BASE_URL = ''http://h'', API_KEY = ''k''\<rparr>
      \<lparr>stdout = [], stderr = [], requests = []\<rparr>))
     = []
   \<and> fst (list_chats_main
      \<lparr>session = ''default'', command = Overview, limit = 20, offset = 0,
       download_media = False\<rparr>
      (\<lambda>_. \<lparr>status_code = 200,
             json_body = Some (JList [JDict [(''id'', JStr ''c''),
                                            (''lastMessage'', JDict [(''body'', JInt 5)])]]),
             text_body = ''''\<rparr>)
      \<lparr>BASE_URL = ''http://h'', API_KEY = ''k''\<rparr>
      \<lparr>stdout = [], stderr = [], requests = []\<rparr>)
     = Inl TypeError
   \<and> stdout (snd (list_chats_main
      \<lparr>session = ''default'', command = Overview, limit = 20, offset = 0,
       download_media = False\<rparr>
      (\<lambda>_. \<lparr>status_code = 200,
             json_body = Some (JList [JDict [(''id'', JStr ''c''),
                                            (''lastMessage'', JDict [(''body'', JInt 5)])]]),
             text_body = ''''\<rparr>)
      \<lparr>BASE_URL = ''http://h'', API_KEY = ''k''\<rparr>
      \<lparr>stdout = [], stderr = [], requests = []\<rparr>))
     = []
   \<and> stdout (snd (groups_main \<lparr>session = ''default'', command = Groups_list\<rparr>
      (\<lambda>_. \<lparr>status_code = 200,
             json_body = Some (JList [JDict [(''id'', JStr ''g''),
                                            (''subject'', JStr ''a\<newline>b'')]]),
             text_body = ''''\<rparr>)
      \<lparr>BASE_URL = ''http://h'', API_KEY = ''k''\<rparr>
      \<lparr>stdout = [], stderr = [], requests = []\<rparr>))
     = [''  g  a\<newline>b (? members)'', ''\<newline>(1 groups)'']"
  by code_simp

end
